theory Spec2Isabelle
  imports Complex_Main "HOL-Library.Sublist"
begin

section \<open>JavaScript values\<close>

text \<open>
  The route handlers and the page component exchange JSON. A value is one of the JSON
  kinds, or \<open>undefined\<close> (what reading a missing property gives). A parsed object is
  its list of properties in insertion order. Numbers carry their exact value as a
  rational: every binary64 value is one.
\<close>

datatype json =
    JUndefined
  | JNull
  | JBool bool
  | JNum rat
  | JStr string
  | JArr "json list"
  | JObj "(string \<times> json) list"

text \<open>
  What a \<open>throw\<close> carries: an \<open>Error\<close> with its message, or any other value
  (\<open>error instanceof Error\<close> is false for it).
\<close>

datatype thrown = ErrorObj string | NonError

text \<open>
  A \<open>TypeError\<close> raised by the runtime is an \<open>Error\<close>; its message is the
  engine's wording, which no handler of this program inspects. The text kept here is a
  placeholder for it.
\<close>

definition TypeError :: thrown where
  "TypeError = ErrorObj ''TypeError''"

text \<open>ToBoolean: the falsy values are undefined, null, false, 0 and the empty string.\<close>

fun truthy :: "json \<Rightarrow> bool" where
  "truthy JUndefined = False"
| "truthy JNull = False"
| "truthy (JBool b) = b"
| "truthy (JNum r) = (r \<noteq> 0)"
| "truthy (JStr s) = (s \<noteq> [])"
| "truthy (JArr xs) = True"
| "truthy (JObj kvs) = True"

text \<open>Reading property \<open>k\<close> of an object given by its property list.\<close>

definition lookup :: "(string \<times> json) list \<Rightarrow> string \<Rightarrow> json" where
  "lookup kvs k = (case map_of kvs k of None \<Rightarrow> JUndefined | Some v \<Rightarrow> v)"

text \<open>
  \<open>v.k\<close> for a property name \<open>k\<close> that is neither \<open>length\<close> nor an index nor a
  method (the handlers read only named data properties): a TypeError on
  undefined and null, the property of an object, undefined on every other value.
\<close>

fun get :: "json \<Rightarrow> string \<Rightarrow> thrown + json" where
  "get JUndefined k = Inl TypeError"
| "get JNull k = Inl TypeError"
| "get (JObj kvs) k = Inr (lookup kvs k)"
| "get v k = Inr JUndefined"

text \<open>
  \<open>JSON.parse (JSON.stringify v)\<close>, which is what a caller of a route reads back from
  the body the route passed to \<open>NextResponse.json\<close>: a property whose value is
  undefined is dropped, an undefined array element becomes null.
\<close>

primrec wire :: "json \<Rightarrow> json" where
  "wire JUndefined = JUndefined"
| "wire JNull = JNull"
| "wire (JBool b) = JBool b"
| "wire (JNum r) = JNum r"
| "wire (JStr s) = JStr s"
| "wire (JArr xs) = JArr (map (\<lambda>x. if x = JUndefined then JNull else x) (map wire xs))"
| "wire (JObj kvs) = JObj (filter (\<lambda>kv. snd kv \<noteq> JUndefined) (map (map_prod id wire) kvs))"

text \<open>Decimal digits of a natural number, as a template literal prints it.\<close>

fun dec :: "nat \<Rightarrow> string" where
  "dec n = (if n < 10 then [''0123456789'' ! n]
            else dec (n div 10) @ [''0123456789'' ! (n mod 10)])"

declare dec.simps [simp del]

text \<open>
  \<open>`${v}`\<close>: a string is spliced as it is; for every other value the text is
  ECMAScript's ToString, taken as the parameter \<open>ts\<close>.
\<close>

fun template :: "(json \<Rightarrow> string) \<Rightarrow> json \<Rightarrow> string" where
  "template ts (JStr s) = s"
| "template ts v = ts v"

section \<open>HTTP responses and the environment\<close>

record response =
  status :: nat
  headers :: "(string \<times> string) list"
  body :: json

text \<open>\<open>NextResponse.json(obj, {status, headers})\<close>; the status defaults to 200.\<close>

definition NextResponse_json :: "(string \<times> json) list \<Rightarrow> nat \<Rightarrow> (string \<times> string) list \<Rightarrow> response" where
  "NextResponse_json obj st hs = \<lparr>status = st, headers = hs, body = wire (JObj obj)\<rparr>"

text \<open>\<open>process.env\<close>: the two variables the routes read.\<close>

record env =
  OPENAI_API_KEY :: "string option"
  CONVERTAPI_SECRET :: "string option"

text \<open>
  An environment variable as a condition sees it: \<open>!x\<close> holds when it is unset or
  set to the empty string, and otherwise it has a non-empty value.
\<close>

fun configured :: "string option \<Rightarrow> string option" where
  "configured None = None"
| "configured (Some s) = (if s = [] then None else Some s)"

text \<open>The \<open>catch\<close> block shared by the routes, with each route's fallback message.\<close>

fun error_message :: "string \<Rightarrow> thrown \<Rightarrow> string" where
  "error_message fallback (ErrorObj m) = m"
| "error_message fallback NonError = fallback"

definition caught :: "string \<Rightarrow> (string \<times> string) list \<Rightarrow> thrown \<Rightarrow> response" where
  "caught fallback hs e =
     NextResponse_json [(''success'', JBool False), (''error'', JStr (error_message fallback e))] 500 hs"

section \<open>Outbound calls\<close>

record File =
  file_name :: string
  file_type :: string
  file_bytes :: string

text \<open>An entry of a multipart form: a file, or a plain string field.\<close>

datatype form_value = FormFile File | FormString string

datatype prompt =
    CompareOrders json json
  | ExtractImage string
  | ExtractText string

text \<open>
  The calls a route sends out: the conversion service with its bearer secret and the
  uploaded entry, or the model service with the API key, the model name, the token
  limit and what the prompt is built from.
\<close>

datatype outbound =
    ConvertAPI string form_value
  | OpenAI string string nat prompt

section \<open>The comparison route\<close>

datatype severity = critical | major | minor

datatype quality = excellent | good | fair | poor

record discrepancy =
  d_field :: string
  order1_value :: string
  order2_value :: string
  d_severity :: severity
  description :: string

record match =
  m_field :: string
  m_value :: string
  confidence :: rat

record analysis =
  overall_confidence :: rat
  comparison_quality :: quality
  potential_issues :: "string list"
  recommendation :: string

text \<open>
  What \<open>llm.invoke\<close> resolves to under \<open>withStructuredOutput(ComparisonResultSchema)\<close>:
  an object of the schema's shape.
\<close>

record comparison =
  discrepancies :: "discrepancy list"
  matches :: "match list"
  analysis :: analysis
  summary :: string

fun json_of_severity :: "severity \<Rightarrow> json" where
  "json_of_severity critical = JStr ''critical''"
| "json_of_severity major = JStr ''major''"
| "json_of_severity minor = JStr ''minor''"

fun json_of_quality :: "quality \<Rightarrow> json" where
  "json_of_quality excellent = JStr ''excellent''"
| "json_of_quality good = JStr ''good''"
| "json_of_quality fair = JStr ''fair''"
| "json_of_quality poor = JStr ''poor''"

definition json_of_discrepancy :: "discrepancy \<Rightarrow> json" where
  "json_of_discrepancy d = JObj
     [(''field'', JStr (d_field d)),
      (''order1_value'', JStr (order1_value d)),
      (''order2_value'', JStr (order2_value d)),
      (''severity'', json_of_severity (d_severity d)),
      (''description'', JStr (description d))]"

definition json_of_match :: "match \<Rightarrow> json" where
  "json_of_match m = JObj
     [(''field'', JStr (m_field m)),
      (''value'', JStr (m_value m)),
      (''confidence'', JNum (confidence m))]"

definition json_of_analysis :: "analysis \<Rightarrow> json" where
  "json_of_analysis a = JObj
     [(''overall_confidence'', JNum (overall_confidence a)),
      (''comparison_quality'', json_of_quality (comparison_quality a)),
      (''potential_issues'', JArr (map JStr (potential_issues a))),
      (''recommendation'', JStr (recommendation a))]"

definition json_of_comparison :: "comparison \<Rightarrow> json" where
  "json_of_comparison c = JObj
     [(''discrepancies'', JArr (map json_of_discrepancy (discrepancies c))),
      (''matches'', JArr (map json_of_match (matches c))),
      (''analysis'', json_of_analysis (analysis c)),
      (''summary'', JStr (summary c))]"

text \<open>
  The literal \<open>0.8\<close> of the source is the binary64 value nearest to 4/5, which is
  3602879701896397 / 2^52, a little above 4/5.
\<close>

definition js_0_8 :: rat where
  "js_0_8 = 3602879701896397 / 4503599627370496"

text \<open>
  Every binary64 value from 1/2 on is a multiple of 2^-53 (those in [1/2, 1) have
  exactly that spacing, larger ones a coarser one). The predicate holds of every
  finite binary64 value; it is all the threshold theorem needs of one.
\<close>

definition on_binary64_grid :: "rat \<Rightarrow> bool" where
  "on_binary64_grid c = (c < 1 / 2 \<or> rat_of_int \<lfloor>c * 2 ^ 53\<rfloor> = c * 2 ^ 53)"

definition compare_request :: "string \<Rightarrow> json \<Rightarrow> json \<Rightarrow> outbound" where
  "compare_request key order1 order2 = OpenAI key ''gpt-4o-mini'' 4000 (CompareOrders order1 order2)"

text \<open>
  \<open>POST\<close> of \<open>app/api/compare-orders/route.ts\<close>. The request is what
  \<open>request.json()\<close> gives (it throws on a body that is not JSON), \<open>llm\<close> is the
  model service, \<open>now\<close> the clock's ISO string. The result is the response and
  the outbound calls made, in order.
\<close>

definition compare_orders_POST ::
  "env \<Rightarrow> (outbound \<Rightarrow> thrown + comparison) \<Rightarrow> string \<Rightarrow> thrown + json \<Rightarrow> response \<times> outbound list" where
  "compare_orders_POST e llm now req =
     (let fallback = ''An unknown error occurred during comparison'' in
      case configured (OPENAI_API_KEY e) of
        None \<Rightarrow> (NextResponse_json [(''error'', JStr ''OpenAI API key is not configured'')] 500 [], [])
      | Some key \<Rightarrow>
            (case req of
               Inl ex \<Rightarrow> (caught fallback [] ex, [])
             | Inr b \<Rightarrow>
                 (case get b ''order1'' of
                    Inl ex \<Rightarrow> (caught fallback [] ex, [])
                  | Inr order1 \<Rightarrow>
                      (case get b ''order2'' of
                         Inl ex \<Rightarrow> (caught fallback [] ex, [])
                       | Inr order2 \<Rightarrow>
                           if \<not> truthy order1 \<or> \<not> truthy order2 then
                             (NextResponse_json
                                [(''error'', JStr ''Both order1 and order2 data are required'')] 400 [], [])
                           else
                             (let call = compare_request key order1 order2 in
                              case llm call of
                                Inl ex \<Rightarrow> (caught fallback [] ex, [call])
                              | Inr r \<Rightarrow>
                                  (let needsManualReview = (overall_confidence (analysis r) < js_0_8) in
                                   (NextResponse_json
                                      [(''success'', JBool True),
                                       (''comparison'', json_of_comparison r),
                                       (''needsManualReview'', JBool needsManualReview),
                                       (''comparedAt'', JStr now)] 200 [],
                                    [call])))))))"

section \<open>The extraction routes\<close>

text \<open>\<open>formData.get(name)\<close>: the first entry of that name, or null.\<close>

definition form_get :: "(string \<times> form_value) list \<Rightarrow> string \<Rightarrow> form_value option" where
  "form_get fd name = map_of fd name"

text \<open>\<open>!entry\<close>: null, or the empty string; a file object is truthy.\<close>

fun missing :: "form_value option \<Rightarrow> bool" where
  "missing None = True"
| "missing (Some (FormString s)) = (s = [])"
| "missing (Some (FormFile f)) = False"

definition image_request :: "string \<Rightarrow> string \<Rightarrow> outbound" where
  "image_request key bytes = OpenAI key ''gpt-4o-mini'' 3000 (ExtractImage bytes)"

text \<open>
  \<open>POST\<close> of the image extraction route (ShippingOrderSchema). The request is what
  \<open>request.formData()\<close> gives; the model service resolves to an object of the
  schema's shape, given by its properties. \<open>imageFile.arrayBuffer()\<close> is a
  TypeError when the entry is a plain string.
\<close>

definition extract_image_POST ::
  "env \<Rightarrow> (outbound \<Rightarrow> thrown + (string \<times> json) list) \<Rightarrow> string
     \<Rightarrow> thrown + (string \<times> form_value) list \<Rightarrow> response \<times> outbound list" where
  "extract_image_POST e llm now req =
     (let fallback = ''An unknown error occurred'' in
      case configured (OPENAI_API_KEY e) of
        None \<Rightarrow> (NextResponse_json [(''error'', JStr ''OpenAI API key is not configured'')] 500 [], [])
      | Some key \<Rightarrow>
        (case req of
           Inl ex \<Rightarrow> (caught fallback [] ex, [])
         | Inr formData \<Rightarrow>
             (let imageFile = form_get formData ''image'' in
              if missing imageFile then
                (NextResponse_json [(''error'', JStr ''No image file provided'')] 400 [], [])
              else
                (case imageFile of
                   Some (FormFile f) \<Rightarrow>
                     (let call = image_request key (file_bytes f) in
                      case llm call of
                        Inl ex \<Rightarrow> (caught fallback [] ex, [call])
                      | Inr r \<Rightarrow>
                          (NextResponse_json
                             [(''success'', JBool True),
                              (''data'', JObj r),
                              (''extractedAt'', JStr now)] 200 [],
                           [call]))
                 | _ \<Rightarrow> (caught fallback [] TypeError, [])))))"

definition corsHeaders :: "(string \<times> string) list" where
  "corsHeaders =
     [(''Access-Control-Allow-Origin'', ''*''),
      (''Access-Control-Allow-Methods'', ''GET, POST, PUT, DELETE, OPTIONS''),
      (''Access-Control-Allow-Headers'', ''Content-Type, Authorization''),
      (''Access-Control-Allow-Credentials'', ''true'')]"

definition text_request :: "string \<Rightarrow> string \<Rightarrow> outbound" where
  "text_request key txt = OpenAI key ''gpt-4.1-mini'' 3000 (ExtractText txt)"

text \<open>
  \<open>POST\<close> of the text extraction route (CroatianInvoiceSchema): the request is what
  \<open>request.json()\<close> gives, and every response carries the CORS headers.
  \<open>!text || typeof text !== 'string'\<close> lets only a non-empty string through.
\<close>

definition extract_text_POST ::
  "env \<Rightarrow> (outbound \<Rightarrow> thrown + (string \<times> json) list) \<Rightarrow> string
     \<Rightarrow> thrown + json \<Rightarrow> response \<times> outbound list" where
  "extract_text_POST e llm now req =
     (let fallback = ''An unknown error occurred'' in
      case configured (OPENAI_API_KEY e) of
        None \<Rightarrow>
          (NextResponse_json [(''error'', JStr ''OpenAI API key is not configured'')] 500 corsHeaders, [])
      | Some key \<Rightarrow>
        (case req of
           Inl ex \<Rightarrow> (caught fallback corsHeaders ex, [])
         | Inr b \<Rightarrow>
             (case get b ''text'' of
                Inl ex \<Rightarrow> (caught fallback corsHeaders ex, [])
              | Inr (JStr txt) \<Rightarrow>
                  if txt = [] then
                    (NextResponse_json [(''error'', JStr ''No text input provided'')] 400 corsHeaders, [])
                  else
                    (let call = text_request key txt in
                     case llm call of
                       Inl ex \<Rightarrow> (caught fallback corsHeaders ex, [call])
                     | Inr r \<Rightarrow>
                         (NextResponse_json
                            [(''success'', JBool True),
                             (''data'', JObj r),
                             (''extractedAt'', JStr now)] 200 corsHeaders,
                          [call]))
              | Inr _ \<Rightarrow>
                  (NextResponse_json [(''error'', JStr ''No text input provided'')] 400 corsHeaders, []))))"

section \<open>The conversion route\<close>

text \<open>
  What \<open>fetch\<close> of the conversion service gives: a rejection (the network failed),
  or a response with its status, status text and what \<open>response.json()\<close> gives.
\<close>

record upstream_response =
  up_status :: nat
  up_statusText :: string
  up_json :: "thrown + json"

datatype fetch_result = Rejected thrown | Resolved upstream_response

text \<open>\<open>response.ok\<close>: the status is in 200..299.\<close>

definition ok :: "upstream_response \<Rightarrow> bool" where
  "ok r = (200 \<le> up_status r \<and> up_status r \<le> 299)"

text \<open>
  The secret the route falls back to when the environment has none: a 32-character
  string literal of the source. The credential itself is not repeated here; all that
  the route's behaviour depends on is that the literal is not empty.
\<close>

definition fallback_secret :: string where
  "fallback_secret = ''<the secret written in the source>''"

text \<open>\<open>process.env.CONVERTAPI_SECRET || '...'\<close>.\<close>

definition convertapi_secret :: "env \<Rightarrow> string" where
  "convertapi_secret e =
     (case configured (CONVERTAPI_SECRET e) of
        None \<Rightarrow> fallback_secret
      | Some s \<Rightarrow> s)"

text \<open>\<open>v[0]\<close>.\<close>

fun index0 :: "json \<Rightarrow> thrown + json" where
  "index0 JUndefined = Inl TypeError"
| "index0 JNull = Inl TypeError"
| "index0 (JArr xs) = Inr (case xs of [] \<Rightarrow> JUndefined | x # _ \<Rightarrow> x)"
| "index0 (JObj kvs) = Inr (lookup kvs ''0'')"
| "index0 (JStr s) = Inr (case s of [] \<Rightarrow> JUndefined | c # _ \<Rightarrow> JStr [c])"
| "index0 v = Inr JUndefined"

text \<open>\<open>Object.keys(v)\<close>, whose result the route only logs: a TypeError on undefined and null.\<close>

fun Object_keys :: "json \<Rightarrow> thrown + unit" where
  "Object_keys JUndefined = Inl TypeError"
| "Object_keys JNull = Inl TypeError"
| "Object_keys v = Inr ()"

fun isArray :: "json \<Rightarrow> bool" where
  "isArray (JArr xs) = True"
| "isArray v = False"

text \<open>One turn of the loop over \<open>result.Files\<close>, at index \<open>i\<close>.\<close>

definition page_image :: "(json \<Rightarrow> string) \<Rightarrow> nat \<Rightarrow> json \<Rightarrow> thrown + json" where
  "page_image ts i fileInfo =
     (case get fileInfo ''FileData'' of
        Inl ex \<Rightarrow> Inl ex
      | Inr fileData \<Rightarrow>
          (case get fileInfo ''FileName'' of
             Inl ex \<Rightarrow> Inl ex
           | Inr fileName \<Rightarrow>
               (case get fileInfo ''FileExt'' of
                  Inl ex \<Rightarrow> Inl ex
                | Inr fileExt \<Rightarrow>
                    (case get fileInfo ''FileSize'' of
                       Inl ex \<Rightarrow> Inl ex
                     | Inr fileSize \<Rightarrow>
                         Inr (JObj
                           [(''pageNumber'', JNum (of_nat (i + 1))),
                            (''imageDataUrl'', JStr (''data:image/jpeg;base64,'' @ template ts fileData)),
                            (''width'', JNum 800),
                            (''height'', JNum 1000),
                            (''fileName'', fileName),
                            (''fileExt'', fileExt),
                            (''fileSize'', fileSize)])))))"

fun page_images :: "(json \<Rightarrow> string) \<Rightarrow> nat \<Rightarrow> json list \<Rightarrow> thrown + json list" where
  "page_images ts i [] = Inr []"
| "page_images ts i (fileInfo # rest) =
     (case page_image ts i fileInfo of
        Inl ex \<Rightarrow> Inl ex
      | Inr p \<Rightarrow>
          (case page_images ts (i + 1) rest of
             Inl ex \<Rightarrow> Inl ex
           | Inr ps \<Rightarrow> Inr (p # ps)))"

text \<open>
  The route from the parsed upstream body on: the diagnostic
  \<open>console.log(Object.keys(result.Files[0]))\<close>, then the check of \<open>result.Files\<close>,
  then the loop and the body of the success response.
\<close>

definition convert_result :: "(json \<Rightarrow> string) \<Rightarrow> json \<Rightarrow> thrown + (string \<times> json) list" where
  "convert_result ts result =
     (case get result ''Files'' of
        Inl ex \<Rightarrow> Inl ex
      | Inr files \<Rightarrow>
          (case index0 files of
             Inl ex \<Rightarrow> Inl ex
           | Inr first \<Rightarrow>
               (case Object_keys first of
                  Inl ex \<Rightarrow> Inl ex
                | Inr u \<Rightarrow>
                    if \<not> truthy files \<or> \<not> isArray files then
                      Inl (ErrorObj ''Invalid response from ConvertAPI'')
                    else
                      (case files of
                         JArr fs \<Rightarrow>
                           (case page_images ts 0 fs of
                              Inl ex \<Rightarrow> Inl ex
                            | Inr pageImages \<Rightarrow>
                                (case get result ''ConversionCost'' of
                                   Inl ex \<Rightarrow> Inl ex
                                 | Inr cost \<Rightarrow>
                                     Inr [(''success'', JBool True),
                                          (''totalPages'', JNum (of_nat (length fs))),
                                          (''pages'', JArr pageImages),
                                          (''conversionInfo'', JObj [(''conversionCost'', cost)])]))
                       | _ \<Rightarrow> Inl (ErrorObj ''Invalid response from ConvertAPI'')))))"

text \<open>
  \<open>POST\<close> of the conversion route. The request is what \<open>request.formData()\<close>
  gives, \<open>convertapi\<close> is the conversion service.
\<close>

definition process_pdf_POST ::
  "env \<Rightarrow> (json \<Rightarrow> string) \<Rightarrow> (outbound \<Rightarrow> fetch_result)
     \<Rightarrow> thrown + (string \<times> form_value) list \<Rightarrow> response \<times> outbound list" where
  "process_pdf_POST e ts convertapi req =
     (let fallback = ''Failed to process PDF'' in
      case req of
        Inl ex \<Rightarrow> (caught fallback [] ex, [])
      | Inr formData \<Rightarrow>
          (case form_get formData ''pdf'' of
             None \<Rightarrow> (NextResponse_json [(''error'', JStr ''No PDF file provided'')] 400 [], [])
           | Some entry \<Rightarrow>
               if missing (Some entry) then
                 (NextResponse_json [(''error'', JStr ''No PDF file provided'')] 400 [], [])
               else if convertapi_secret e = [] then
                 (NextResponse_json [(''error'', JStr ''ConvertAPI secret is not configured'')] 500 [], [])
               else
                 (let call = ConvertAPI (convertapi_secret e) entry in
                  case convertapi call of
                    Rejected ex \<Rightarrow> (caught fallback [] ex, [call])
                  | Resolved r \<Rightarrow>
                      if \<not> ok r then
                        (caught fallback []
                           (ErrorObj (''ConvertAPI error: '' @ dec (up_status r) @ '' '' @ up_statusText r)),
                         [call])
                      else
                        (case up_json r of
                           Inl ex \<Rightarrow> (caught fallback [] ex, [call])
                         | Inr result \<Rightarrow>
                             (case convert_result ts result of
                                Inl ex \<Rightarrow> (caught fallback [] ex, [call])
                              | Inr obj \<Rightarrow> (NextResponse_json obj 200 [], [call]))))))"

section \<open>The page component: state\<close>

text \<open>
  \<open>PageImage\<close>, \<open>PdfData\<close> and the component's state hooks. The fields a page
  takes from the conversion response (\<open>page: any\<close>) are JSON values; an extraction
  result is the object \<open>{...result, pageNumber}\<close>, kept as its property list; the
  comparison result is \<open>null\<close> or what the comparison call gave.
\<close>

record PageImage =
  pageNumber :: json
  imageDataUrl :: json
  selected :: bool
  width :: json
  height :: json

type_synonym ExtractedData = "(string \<times> json) list"

record PdfData =
  file' :: "File option"
  pageImages :: "PageImage list"
  loading :: bool
  extractedData :: "ExtractedData list"
  processing :: bool

record AppState =
  pdf1 :: PdfData
  pdf2 :: PdfData
  comparisonResult :: json
  comparing :: bool
  showExtractedData :: bool

datatype pdf_number = Pdf1 | Pdf2

text \<open>
  The updater functions the handlers pass to \<open>setPdfData\<close>, each applied by React
  to the state current at that moment (\<open>prev\<close>).
\<close>

datatype pdf_update =
    BeginUpload File
  | PagesReady "PageImage list"
  | UploadFailed
  | StartProcessing
  | FinishProcessing "ExtractedData list"

fun apply_update :: "pdf_update \<Rightarrow> PdfData \<Rightarrow> PdfData" where
  "apply_update (BeginUpload f) prev =
     prev\<lparr>file' := Some f, loading := True, pageImages := [], extractedData := []\<rparr>"
| "apply_update (PagesReady images) prev = prev\<lparr>pageImages := images, loading := False\<rparr>"
| "apply_update UploadFailed prev = prev\<lparr>loading := False\<rparr>"
| "apply_update StartProcessing prev = prev\<lparr>processing := True\<rparr>"
| "apply_update (FinishProcessing results) prev =
     prev\<lparr>extractedData := results, processing := False\<rparr>"

text \<open>
  What the component asks the browser for: the image behind a data URL
  (\<open>fetch(url)\<close> and \<open>.blob()\<close>), or one of the three routes (\<open>fetch\<close> and
  \<open>.json()\<close>). Either await may throw, and both are inside the same \<open>try\<close>,
  so a request has one reply: what was thrown, or the value.
\<close>

datatype request =
    GetUrl json
  | PostPdf File
  | PostExtract string string
  | PostCompare json json

datatype reply = Threw thrown | GotBlob string | GotJson json

text \<open>
  What a handler does, in order: an alert, a request sent and its reply received (the
  handler is suspended in between), or a state setter. \<open>console.error\<close> is left
  out.
\<close>

datatype step =
    Alert string
  | Call request
  | Return reply
  | SetPdfData pdf_number pdf_update
  | SetComparing bool
  | SetComparisonResult json

fun apply_step :: "step \<Rightarrow> AppState \<Rightarrow> AppState" where
  "apply_step (SetPdfData Pdf1 u) s = s\<lparr>pdf1 := apply_update u (pdf1 s)\<rparr>"
| "apply_step (SetPdfData Pdf2 u) s = s\<lparr>pdf2 := apply_update u (pdf2 s)\<rparr>"
| "apply_step (SetComparing b) s = s\<lparr>comparing := b\<rparr>"
| "apply_step (SetComparisonResult r) s = s\<lparr>comparisonResult := r\<rparr>"
| "apply_step (Alert m) s = s"
| "apply_step (Call q) s = s"
| "apply_step (Return r) s = s"

text \<open>The state after a handler's steps, when nothing else runs in between.\<close>

definition run :: "step list \<Rightarrow> AppState \<Rightarrow> AppState" where
  "run tr s = fold apply_step tr s"

text \<open>
  The browser and the network, as the component sees them: each request is answered
  from the state \<open>'w\<close> of the world, which the answer may change; \<open>to_string\<close>
  is ToString for template literals.
\<close>

record 'w browser =
  fetch_url :: "json \<Rightarrow> 'w \<Rightarrow> (thrown + string) \<times> 'w"
  post_pdf :: "File \<Rightarrow> 'w \<Rightarrow> (thrown + json) \<times> 'w"
  post_extract :: "string \<Rightarrow> string \<Rightarrow> 'w \<Rightarrow> (thrown + json) \<times> 'w"
  post_compare :: "json \<Rightarrow> json \<Rightarrow> 'w \<Rightarrow> (thrown + json) \<times> 'w"
  to_string :: "json \<Rightarrow> string"

fun json_reply :: "thrown + json \<Rightarrow> reply" where
  "json_reply (Inl ex) = Threw ex"
| "json_reply (Inr v) = GotJson v"

section \<open>The page component: processPdf\<close>

definition page_of_json :: "json \<Rightarrow> thrown + PageImage" where
  "page_of_json page =
     (case get page ''pageNumber'' of
        Inl ex \<Rightarrow> Inl ex
      | Inr n \<Rightarrow>
          (case get page ''imageDataUrl'' of
             Inl ex \<Rightarrow> Inl ex
           | Inr url \<Rightarrow>
               (case get page ''width'' of
                  Inl ex \<Rightarrow> Inl ex
                | Inr w \<Rightarrow>
                    (case get page ''height'' of
                       Inl ex \<Rightarrow> Inl ex
                     | Inr h \<Rightarrow>
                         Inr \<lparr>pageNumber = n, imageDataUrl = url, selected = False,
                              width = w, height = h\<rparr>))))"

fun pages_of_json :: "json list \<Rightarrow> thrown + PageImage list" where
  "pages_of_json [] = Inr []"
| "pages_of_json (page # rest) =
     (case page_of_json page of
        Inl ex \<Rightarrow> Inl ex
      | Inr img \<Rightarrow>
          (case pages_of_json rest of
             Inl ex \<Rightarrow> Inl ex
           | Inr imgs \<Rightarrow> Inr (img # imgs)))"

text \<open>
  The body of the \<open>try\<close> after the reply: \<open>result.success\<close> decides;
  \<open>result.pages.map\<close> is a TypeError unless \<open>result.pages\<close> is an array, and
  the other branch throws \<open>new Error(result.error || 'Failed to process PDF')\<close>.
\<close>

definition images_of_result :: "(json \<Rightarrow> string) \<Rightarrow> json \<Rightarrow> thrown + PageImage list" where
  "images_of_result ts result =
     (case get result ''success'' of
        Inl ex \<Rightarrow> Inl ex
      | Inr success \<Rightarrow>
          if truthy success then
            (case get result ''pages'' of
               Inl ex \<Rightarrow> Inl ex
             | Inr (JArr pages) \<Rightarrow> pages_of_json pages
             | Inr _ \<Rightarrow> Inl TypeError)
          else
            (case get result ''error'' of
               Inl ex \<Rightarrow> Inl ex
             | Inr v \<Rightarrow>
                 Inl (ErrorObj (if truthy v then template ts v else ''Failed to process PDF''))))"

definition processPdf ::
  "'w browser \<Rightarrow> File option \<Rightarrow> pdf_number \<Rightarrow> 'w \<Rightarrow> step list \<times> 'w" where
  "processPdf br selectedFile pdfNumber w =
     (case selectedFile of
        None \<Rightarrow> ([Alert ''Please select a valid PDF file''], w)
      | Some f \<Rightarrow>
          if file_type f \<noteq> ''application/pdf'' then
            ([Alert ''Please select a valid PDF file''], w)
          else
            (case post_pdf br f w of
               (answer, w') \<Rightarrow>
                ([SetPdfData pdfNumber (BeginUpload f), Call (PostPdf f), Return (json_reply answer)] @
                 (case answer of
                    Inl ex \<Rightarrow>
                      [Alert ''Error processing PDF. Please try again.'', SetPdfData pdfNumber UploadFailed]
                  | Inr result \<Rightarrow>
                      (case images_of_result (to_string br) result of
                         Inl ex \<Rightarrow>
                           [Alert ''Error processing PDF. Please try again.'',
                            SetPdfData pdfNumber UploadFailed]
                       | Inr images \<Rightarrow> [SetPdfData pdfNumber (PagesReady images)])),
                 w')))"

section \<open>The page component: processSelectedImages\<close>

text \<open>
  The own enumerable properties \<open>{...v}\<close> copies: those of an object, the indexed
  elements of an array or of a string, none of any other value.
\<close>

fun spread :: "json \<Rightarrow> (string \<times> json) list" where
  "spread (JObj kvs) = kvs"
| "spread (JArr xs) = zip (map dec [0..<length xs]) xs"
| "spread (JStr s) = zip (map dec [0..<length s]) (map (\<lambda>c. JStr [c]) s)"
| "spread v = []"

text \<open>Setting property \<open>k\<close>: in place when the object has it, at the end otherwise.\<close>

fun obj_put :: "(string \<times> json) list \<Rightarrow> string \<Rightarrow> json \<Rightarrow> (string \<times> json) list" where
  "obj_put [] k v = [(k, v)]"
| "obj_put (p # ps) k v = (if fst p = k then (k, v) # ps else p # obj_put ps k v)"

text \<open>The entry pushed in the \<open>catch\<close> block, and the one pushed after a reply.\<close>

definition failure_entry :: "(json \<Rightarrow> string) \<Rightarrow> json \<Rightarrow> ExtractedData" where
  "failure_entry ts n =
     [(''success'', JBool False),
      (''error'', JStr (''Failed to process page '' @ template ts n)),
      (''pageNumber'', n)]"

definition result_entry :: "json \<Rightarrow> json \<Rightarrow> ExtractedData" where
  "result_entry result n = obj_put (spread result) ''pageNumber'' n"

text \<open>
  One turn of the loop over the selected images: the entry pushed, the requests and
  replies of the turn, and the world after it.
\<close>

definition process_page ::
  "'w browser \<Rightarrow> PageImage \<Rightarrow> 'w \<Rightarrow> ExtractedData \<times> step list \<times> 'w" where
  "process_page br imageData w =
     (case fetch_url br (imageDataUrl imageData) w of
        (Inl ex, w1) \<Rightarrow>
          (failure_entry (to_string br) (pageNumber imageData),
           [Call (GetUrl (imageDataUrl imageData)), Return (Threw ex)], w1)
      | (Inr blob, w1) \<Rightarrow>
          (let name = ''page-'' @ template (to_string br) (pageNumber imageData) @ ''.jpg'' in
           case post_extract br blob name w1 of
             (Inl ex, w2) \<Rightarrow>
               (failure_entry (to_string br) (pageNumber imageData),
                [Call (GetUrl (imageDataUrl imageData)), Return (GotBlob blob),
                 Call (PostExtract blob name), Return (Threw ex)], w2)
           | (Inr result, w2) \<Rightarrow>
               (result_entry result (pageNumber imageData),
                [Call (GetUrl (imageDataUrl imageData)), Return (GotBlob blob),
                 Call (PostExtract blob name), Return (GotJson result)], w2)))"

text \<open>
  The loop \<open>for (const imageData of selectedImages)\<close>: \<open>results\<close> is the array
  pushed to so far.
\<close>

fun extract_loop ::
  "'w browser \<Rightarrow> PageImage list \<Rightarrow> ExtractedData list \<Rightarrow> 'w
     \<Rightarrow> ExtractedData list \<times> step list \<times> 'w" where
  "extract_loop br [] results w = (results, [], w)"
| "extract_loop br (imageData # rest) results w =
     (case process_page br imageData w of
        (entry, steps, w1) \<Rightarrow>
          (case extract_loop br rest (results @ [entry]) w1 of
             (final, steps', w2) \<Rightarrow> (final, steps @ steps', w2)))"

definition pdf_of :: "pdf_number \<Rightarrow> AppState \<Rightarrow> PdfData" where
  "pdf_of n s = (case n of Pdf1 \<Rightarrow> pdf1 s | Pdf2 \<Rightarrow> pdf2 s)"

definition selectedImages :: "PdfData \<Rightarrow> PageImage list" where
  "selectedImages pdfData = filter selected (pageImages pdfData)"

text \<open>
  \<open>processSelectedImages\<close>, run on the state \<open>s\<close> the handler closed over: its
  steps, and the world after them.
\<close>

definition processSelectedImages ::
  "'w browser \<Rightarrow> pdf_number \<Rightarrow> AppState \<Rightarrow> 'w \<Rightarrow> step list \<times> 'w" where
  "processSelectedImages br pdfNumber s w =
     (let pdfData = pdf_of pdfNumber s
      in if length (selectedImages pdfData) = 0 then
           ([Alert ''Please select at least one page to process''], w)
         else
           (case extract_loop br (selectedImages pdfData) [] w of
              (results, steps, w') \<Rightarrow>
                ([SetPdfData pdfNumber StartProcessing] @ steps @
                 [SetPdfData pdfNumber (FinishProcessing results)], w')))"

section \<open>The page component: compareOrders\<close>

text \<open>\<open>results.find(result => result.success)?.data\<close>.\<close>

definition first_success_data :: "ExtractedData list \<Rightarrow> json" where
  "first_success_data results =
     (case find (\<lambda>result. truthy (lookup result ''success'')) results of
        None \<Rightarrow> JUndefined
      | Some result \<Rightarrow> lookup result ''data'')"

definition compareOrders :: "'w browser \<Rightarrow> AppState \<Rightarrow> 'w \<Rightarrow> step list \<times> 'w" where
  "compareOrders br s w =
     (let order1Data = first_success_data (extractedData (pdf1 s));
          order2Data = first_success_data (extractedData (pdf2 s))
      in if \<not> truthy order1Data \<or> \<not> truthy order2Data then
           ([Alert ''Please ensure both PDFs have been processed and have successful extractions before comparing.''], w)
         else
           (case post_compare br order1Data order2Data w of
              (Inl ex, w') \<Rightarrow>
                ([SetComparing True, SetComparisonResult JNull,
                  Call (PostCompare order1Data order2Data), Return (Threw ex),
                  SetComparisonResult
                    (JObj [(''success'', JBool False),
                           (''error'', JStr ''Failed to compare orders. Please try again.'')]),
                  SetComparing False], w')
            | (Inr result, w') \<Rightarrow>
                ([SetComparing True, SetComparisonResult JNull,
                  Call (PostCompare order1Data order2Data), Return (GotJson result),
                  SetComparisonResult result,
                  SetComparing False], w')))"

section \<open>Notions the properties are stated with\<close>

text \<open>
  The loop of \<open>processSelectedImages\<close> seen page by page: for each image in turn, the
  entry and the steps of \<open>process_page\<close> on it, started in the world the pages
  before it left behind.
\<close>

fun page_outcomes :: "'w browser \<Rightarrow> PageImage list \<Rightarrow> 'w \<Rightarrow> (ExtractedData \<times> step list) list" where
  "page_outcomes br [] w = []"
| "page_outcomes br (imageData # rest) w =
     (case process_page br imageData w of
        (entry, steps, w1) \<Rightarrow> (entry, steps) # page_outcomes br rest w1)"

text \<open>The steps that talk to the outside, and the requests among them.\<close>

fun is_io :: "step \<Rightarrow> bool" where
  "is_io (Call q) = True"
| "is_io (Return r) = True"
| "is_io st = False"

fun requests :: "step list \<Rightarrow> request list" where
  "requests [] = []"
| "requests (Call q # tr) = q # requests tr"
| "requests (st # tr) = requests tr"

fun fetched_urls :: "request list \<Rightarrow> json list" where
  "fetched_urls [] = []"
| "fetched_urls (GetUrl u # qs) = u # fetched_urls qs"
| "fetched_urls (q # qs) = fetched_urls qs"

text \<open>
  One request at a time: every request is followed at once by its reply, so none is
  sent while another is outstanding.
\<close>

fun alternating :: "step list \<Rightarrow> bool" where
  "alternating [] = True"
| "alternating (Call q # Return r # tr) = alternating tr"
| "alternating tr = False"

text \<open>The file names of the extraction requests among a list of requests.\<close>

fun extraction_names :: "request list \<Rightarrow> string list" where
  "extraction_names [] = []"
| "extraction_names (PostExtract blob name # qs) = name # extraction_names qs"
| "extraction_names (q # qs) = extraction_names qs"

text \<open>
  What the browser answers to a request in the world \<open>w\<close>, and the world after
  the answer.
\<close>

fun ask :: "'w browser \<Rightarrow> request \<Rightarrow> 'w \<Rightarrow> reply \<times> 'w" where
  "ask br (GetUrl u) w =
     (case fetch_url br u w of
        (Inl ex, w') \<Rightarrow> (Threw ex, w')
      | (Inr blob, w') \<Rightarrow> (GotBlob blob, w'))"
| "ask br (PostPdf f) w = (case post_pdf br f w of (a, w') \<Rightarrow> (json_reply a, w'))"
| "ask br (PostExtract blob name) w =
     (case post_extract br blob name w of (a, w') \<Rightarrow> (json_reply a, w'))"
| "ask br (PostCompare order1 order2) w =
     (case post_compare br order1 order2 w of (a, w') \<Rightarrow> (json_reply a, w'))"

text \<open>
  The steps are answered by the browser, one request after the other: every request
  is followed at once by a reply, the reply is what the browser answers to that request
  in the world the earlier requests left behind, and the next request meets the world
  after that answer. The result is the world after the last reply; \<open>None\<close> when
  a reply is missing or is not the browser's.
\<close>

fun answered :: "'w browser \<Rightarrow> step list \<Rightarrow> 'w \<Rightarrow> 'w option" where
  "answered br [] w = Some w"
| "answered br (Call q # Return r # tr) w =
     (case ask br q w of (a, w') \<Rightarrow> if r = a then answered br tr w' else None)"
| "answered br (Call q # tr) w = None"
| "answered br (Return r # tr) w = None"
| "answered br (st # tr) w = answered br tr w"

text \<open>
  The file name under which a page is sent to the extraction route, and the entry
  recorded for a page whose extraction failed.
\<close>

definition page_file_name :: "(json \<Rightarrow> string) \<Rightarrow> PageImage \<Rightarrow> string" where
  "page_file_name ts imageData = ''page-'' @ template ts (pageNumber imageData) @ ''.jpg''"

definition failed_page :: "(json \<Rightarrow> string) \<Rightarrow> PageImage \<Rightarrow> ExtractedData" where
  "failed_page ts imageData =
     [(''success'', JBool False),
      (''error'', JStr (''Failed to process page '' @ template ts (pageNumber imageData))),
      (''pageNumber'', pageNumber imageData)]"

text \<open>
  The steps and the entry of one page, as the specification has them. The page's image
  is requested first. When that throws, nothing else is requested and the page's entry
  is the failure entry. Otherwise the image is sent to the extraction route under the
  page's file name: a throw gives the failure entry, an answer gives the answer's
  properties with \<open>pageNumber\<close> set to the page's number (every other property of
  an answer that is an object is in the entry with the answer's value).
\<close>

fun page_block :: "(json \<Rightarrow> string) \<Rightarrow> PageImage \<Rightarrow> ExtractedData \<times> step list \<Rightarrow> bool" where
  "page_block ts imageData (entry, steps) =
     (case last steps of
        Return (Threw ex) \<Rightarrow>
          entry = failed_page ts imageData
          \<and> (steps = [Call (GetUrl (imageDataUrl imageData)), Return (Threw ex)]
             \<or> (case steps ! 1 of
                  Return (GotBlob blob) \<Rightarrow>
                    steps = [Call (GetUrl (imageDataUrl imageData)), Return (GotBlob blob),
                             Call (PostExtract blob (page_file_name ts imageData)), Return (Threw ex)]
                | _ \<Rightarrow> False))
      | Return (GotJson result) \<Rightarrow>
          entry = obj_put (spread result) ''pageNumber'' (pageNumber imageData)
          \<and> lookup entry ''pageNumber'' = pageNumber imageData
          \<and> (case result of
                JObj kvs \<Rightarrow>
                  list_all (\<lambda>k. k = ''pageNumber'' \<or> lookup entry k = lookup kvs k) (map fst kvs)
              | _ \<Rightarrow> True)
          \<and> (case steps ! 1 of
                Return (GotBlob blob) \<Rightarrow>
                  steps = [Call (GetUrl (imageDataUrl imageData)), Return (GotBlob blob),
                           Call (PostExtract blob (page_file_name ts imageData)),
                           Return (GotJson result)]
              | _ \<Rightarrow> False)
      | _ \<Rightarrow> False)"


text \<open>
  A successful extraction result is one whose \<open>success\<close> is truthy, the test the
  component applies everywhere. In the data model a successful result carries the
  extracted record, which is what \<open>carries_data\<close> says of an entry.
\<close>

definition successful :: "ExtractedData \<Rightarrow> bool" where
  "successful result = truthy (lookup result ''success'')"

definition has_success :: "ExtractedData list \<Rightarrow> bool" where
  "has_success results = list_ex successful results"

definition carries_data :: "ExtractedData \<Rightarrow> bool" where
  "carries_data result = (successful result \<longrightarrow> truthy (lookup result ''data''))"

text \<open>
  The shapes of a route's response: success true with the payload property and no
  error (status 200); exactly \<open>{success: false, error}\<close> with a message (status
  500); exactly \<open>{error}\<close> with a message (status 400 or 500); anything else.
\<close>

datatype shape = OkShape | ExceptionShape | PreconditionShape | OtherShape

fun is_string :: "json \<Rightarrow> bool" where
  "is_string (JStr m) = True"
| "is_string v = False"

definition response_shape :: "string \<Rightarrow> response \<Rightarrow> shape" where
  "response_shape payload r =
     (case body r of
        JObj kvs \<Rightarrow>
          if status r = 200 \<and> lookup kvs ''success'' = JBool True
             \<and> payload \<in> set (map fst kvs) \<and> ''error'' \<notin> set (map fst kvs)
          then OkShape
          else if status r = 500 \<and> map fst kvs = [''success'', ''error'']
             \<and> lookup kvs ''success'' = JBool False \<and> is_string (lookup kvs ''error'')
          then ExceptionShape
          else if (status r = 400 \<or> status r = 500) \<and> map fst kvs = [''error'']
             \<and> is_string (lookup kvs ''error'')
          then PreconditionShape
          else OtherShape
      | _ \<Rightarrow> OtherShape)"

text \<open>
  The two bodies of a failure: the one of a route's \<open>catch\<close> block, and the bare
  error of a failed precondition.
\<close>

definition failure_body :: "string \<Rightarrow> json" where
  "failure_body m = JObj [(''success'', JBool False), (''error'', JStr m)]"

definition error_body :: "string \<Rightarrow> json" where
  "error_body m = JObj [(''error'', JStr m)]"

text \<open>The pages a conversion response carries.\<close>

definition response_pages :: "response \<Rightarrow> json list" where
  "response_pages r = (case get (body r) ''pages'' of Inr (JArr ps) \<Rightarrow> ps | _ \<Rightarrow> [])"

text \<open>
  The conversion fails when the route's response is not of the success shape.
  \<open>is_pdf_file\<close> is the test of \<open>processPdf\<close> on the file the user picked.
\<close>

definition conversion_failed :: "response \<Rightarrow> bool" where
  "conversion_failed r = (response_shape ''pages'' r \<noteq> OkShape)"

fun is_pdf_file :: "File option \<Rightarrow> bool" where
  "is_pdf_file None = False"
| "is_pdf_file (Some f) = (file_type f = ''application/pdf'')"

text \<open>
  The upstream response lacks the page list: its body is not JSON, or has no array
  under \<open>Files\<close>.
\<close>

fun lacks_page_list :: "thrown + json \<Rightarrow> bool" where
  "lacks_page_list (Inl ex) = True"
| "lacks_page_list (Inr result) = (case get result ''Files'' of Inr (JArr fs) \<Rightarrow> False | _ \<Rightarrow> True)"

text \<open>
  What the conversion service answers to the route's call, when the form has an entry
  \<open>pdf\<close> and the route gets to call it.
\<close>

definition upstream_answer ::
  "env \<Rightarrow> (outbound \<Rightarrow> fetch_result) \<Rightarrow> (string \<times> form_value) list \<Rightarrow> fetch_result option" where
  "upstream_answer e convertapi formData =
     (if missing (form_get formData ''pdf'') then None
      else map_option (\<lambda>entry. convertapi (ConvertAPI (convertapi_secret e) entry))
             (form_get formData ''pdf''))"

text \<open>
  The failures the specification lists for the route: no file supplied, a response
  whose status is not a success, a response that lacks the page list.
\<close>

fun listed_failure :: "fetch_result option \<Rightarrow> bool" where
  "listed_failure None = True"
| "listed_failure (Some (Rejected ex)) = False"
| "listed_failure (Some (Resolved r)) = (\<not> ok r \<or> lacks_page_list (up_json r))"

text \<open>The failures of the route: the listed ones, and a call that throws.\<close>

fun route_failure :: "fetch_result option \<Rightarrow> bool" where
  "route_failure None = True"
| "route_failure (Some (Rejected ex)) = True"
| "route_failure (Some (Resolved r)) = (\<not> ok r \<or> lacks_page_list (up_json r))"

text \<open>
  A page list as the service sends it for a document: when the answer has an array
  under \<open>Files\<close>, the array is not empty and none of its entries is null.
\<close>

fun listed_pages :: "fetch_result option \<Rightarrow> bool" where
  "listed_pages (Some (Resolved r)) =
     (case up_json r of
        Inl ex \<Rightarrow> True
      | Inr result \<Rightarrow>
          (case get result ''Files'' of
             Inr (JArr fs) \<Rightarrow> fs \<noteq> [] \<and> JNull \<notin> set fs \<and> JUndefined \<notin> set fs
           | _ \<Rightarrow> True))"
| "listed_pages a = True"

section \<open>Example inputs\<close>

text \<open>Concrete inputs at which the theorems below are instantiated.\<close>

definition example_env :: env where
  "example_env = \<lparr>OPENAI_API_KEY = Some ''sk-test'', CONVERTAPI_SECRET = Some ''secret''\<rparr>"

definition example_env_unset :: env where
  "example_env_unset = \<lparr>OPENAI_API_KEY = None, CONVERTAPI_SECRET = None\<rparr>"

definition example_order :: json where
  "example_order = JObj [(''OrderNumber'', JStr ''SO-1001''), (''Carrier'', JStr ''UPS'')]"

definition example_comparison :: comparison where
  "example_comparison =
     \<lparr>discrepancies = [], matches = [],
      analysis = \<lparr>overall_confidence = 3 / 4, comparison_quality = fair,
                  potential_issues = [], recommendation = ''Review manually''\<rparr>,
      summary = ''The orders agree''\<rparr>"

definition example_to_string :: "json \<Rightarrow> string" where
  "example_to_string v = (case v of JNum r \<Rightarrow> dec (nat \<lfloor>r\<rfloor>) | _ \<Rightarrow> [])"

definition example_page :: "nat \<Rightarrow> bool \<Rightarrow> PageImage" where
  "example_page n sel =
     \<lparr>pageNumber = JNum (of_nat n),
      imageDataUrl = JStr (''data:image/jpeg;base64,'' @ dec n),
      selected = sel, width = JNum 800, height = JNum 1000\<rparr>"

definition example_extraction :: json where
  "example_extraction =
     JObj [(''success'', JBool True), (''data'', example_order),
           (''extractedAt'', JStr ''2025-06-01T10:00:00.000Z'')]"

text \<open>
  A browser whose world counts the requests answered: data URLs load, the extraction
  of page 3 fails on the network, every other extraction answers
  \<open>example_extraction\<close>, the comparison route answers with a failure body.
\<close>

definition example_browser :: "nat browser" where
  "example_browser =
     \<lparr>fetch_url = (\<lambda>url w. (Inr ''jpeg'', w + 1)),
      post_pdf = (\<lambda>f w. (Inl (ErrorObj ''Failed to fetch''), w + 1)),
      post_extract = (\<lambda>blob name w.
         (if name = ''page-3.jpg'' then Inl (ErrorObj ''Failed to fetch'') else Inr example_extraction,
          w + 1)),
      post_compare = (\<lambda>order1 order2 w.
         (Inr (JObj [(''success'', JBool False), (''error'', JStr ''rate limited'')]), w + 1)),
      to_string = example_to_string\<rparr>"

text \<open>
  A state with three pages of the first document, pages 1 and 3 selected, and one
  page of the second, not selected; both documents hold results of an earlier run, and
  an earlier comparison is stored.
\<close>

definition example_state :: AppState where
  "example_state =
     \<lparr>pdf1 = \<lparr>file' = None,
               pageImages = [example_page 1 True, example_page 2 False, example_page 3 True],
               loading = False,
               extractedData =
                 [[(''success'', JBool False), (''error'', JStr ''Failed to process page 2''),
                   (''pageNumber'', JNum 2)],
                  [(''success'', JBool True), (''data'', example_order), (''pageNumber'', JNum 1)],
                  [(''success'', JBool True), (''data'', JObj [(''OrderNumber'', JStr ''SO-9'')]),
                   (''pageNumber'', JNum 3)]],
               processing = False\<rparr>,
      pdf2 = \<lparr>file' = None,
               pageImages = [example_page 1 False],
               loading = False,
               extractedData =
                 [[(''success'', JBool True), (''data'', JObj [(''OrderNumber'', JStr ''SO-1002'')]),
                   (''pageNumber'', JNum 1)]],
               processing = False\<rparr>,
      comparisonResult = JObj [(''success'', JBool False), (''error'', JStr ''stale'')],
      comparing = False,
      showExtractedData = False\<rparr>"

definition example_pdf :: File where
  "example_pdf = \<lparr>file_name = ''order.pdf'', file_type = ''application/pdf'', file_bytes = ''%PDF-1.7''\<rparr>"

definition example_file_info :: "string \<Rightarrow> json" where
  "example_file_info d =
     JObj [(''FileName'', JStr ''order.jpg''), (''FileExt'', JStr ''jpg''),
           (''FileSize'', JNum 1024), (''FileData'', JStr d)]"

text \<open>A conversion service that answers every call with three page files.\<close>

definition example_convertapi :: "outbound \<Rightarrow> fetch_result" where
  "example_convertapi call =
     Resolved \<lparr>up_status = 200, up_statusText = ''OK'',
               up_json = Inr (JObj [(''ConversionCost'', JNum 1),
                                    (''Files'', JArr [example_file_info ''AAAA'',
                                                      example_file_info ''BBBB'',
                                                      example_file_info ''CCCC''])])\<rparr>"

text \<open>A conversion service that cannot be reached: \<open>fetch\<close> rejects.\<close>

definition example_offline :: "outbound \<Rightarrow> fetch_result" where
  "example_offline call = Rejected (ErrorObj ''fetch failed'')"

text \<open>
  A conversion service that answers status 500 with an empty page list in its body.
\<close>

definition example_empty :: "outbound \<Rightarrow> fetch_result" where
  "example_empty call =
     Resolved \<lparr>up_status = 500, up_statusText = ''Internal Server Error'',
               up_json = Inr (JObj [(''Files'', JArr [])])\<rparr>"

definition example_form :: "(string \<times> form_value) list" where
  "example_form = [(''pdf'', FormFile example_pdf)]"

section \<open>Properties of the comparison route\<close>

lemma js_0_8_nearest: "js_0_8 * 2 ^ 53 = 7205759403792794 \<and> \<bar>js_0_8 - 4 / 5\<bar> < 1 / 2 ^ 54"
  by (simp add: js_0_8_def)

lemma threshold_on_grid:
  assumes "on_binary64_grid c"
  shows "(c < js_0_8) = (c < 4 / 5)"
proof (cases "c < 1 / 2")
  case True
  then show ?thesis by (simp add: js_0_8_def)
next
  case False
  define m where "m = \<lfloor>c * 2 ^ 53\<rfloor>"
  from assms False have m: "rat_of_int m = c * 2 ^ 53"
    by (simp add: on_binary64_grid_def m_def)
  have c: "c = rat_of_int m / 2 ^ 53"
    by (simp add: m)
  have a: "(c < js_0_8) = (m < 7205759403792794)"
    unfolding c js_0_8_def by (simp add: divide_simps)
  have "(c < 4 / 5) = (rat_of_int m * 5 < 36028797018963968)"
    unfolding c by (simp add: divide_simps)
  also have "\<dots> = (rat_of_int (m * 5) < rat_of_int 36028797018963968)"
    by simp
  also have "\<dots> = (m * 5 < 36028797018963968)"
    by (rule of_int_less_iff)
  finally have b: "(c < 4 / 5) = (m * 5 < 36028797018963968)" .
  show ?thesis unfolding a b by arith
qed

lemma wire_undefined_iff [simp]: "(wire v = JUndefined) = (v = JUndefined)"
  by (cases v) simp_all

text \<open>
  Claim C1. Whenever the comparison route has called the model service and the service
  answered with an analysis whose overall confidence \<open>c\<close> is a binary64 value in
  [0, 1], the response has status 200, carries the service's answer under
  \<open>comparison\<close>, and its \<open>needsManualReview\<close> is the boolean \<open>c < 4/5\<close>: a
  value the route computes from the confidence alone, whatever else the service said.
\<close>

theorem needsManualReview_threshold:
  assumes run: "compare_orders_POST e llm now req = (resp, calls)"
      and called: "calls = [call]"
      and answer: "llm call = Inr r"
      and range: "0 \<le> overall_confidence (analysis r)" "overall_confidence (analysis r) \<le> 1"
      and grid: "on_binary64_grid (overall_confidence (analysis r))"
  shows "get (body resp) ''needsManualReview'' = Inr (JBool (overall_confidence (analysis r) < 4 / 5))
       \<and> get (body resp) ''comparison'' = Inr (wire (json_of_comparison r))
       \<and> status resp = 200"
  using run called answer threshold_on_grid [OF grid]
  by (auto simp: compare_orders_POST_def Let_def NextResponse_json_def caught_def lookup_def
           split: option.splits if_splits sum.splits)

theorem needsManualReview_threshold_witness:
  "on_binary64_grid (3 / 4)
   \<and> snd (compare_orders_POST example_env (\<lambda>c. Inr example_comparison) ''2025-06-01T10:00:00.000Z''
         (Inr (JObj [(''order1'', example_order), (''order2'', example_order)])))
       = [compare_request ''sk-test'' example_order example_order]
   \<and> get (body (fst (compare_orders_POST example_env (\<lambda>c. Inr example_comparison) ''2025-06-01T10:00:00.000Z''
         (Inr (JObj [(''order1'', example_order), (''order2'', example_order)])))))
         ''needsManualReview'' = Inr (JBool True)"
proof -
  let ?llm = "\<lambda>c::outbound. (Inr example_comparison :: thrown + comparison)"
  let ?p = "compare_orders_POST example_env ?llm ''2025-06-01T10:00:00.000Z''
         (Inr (JObj [(''order1'', example_order), (''order2'', example_order)]))"
  have run: "?p = (fst ?p, snd ?p)" by simp
  have calls: "snd ?p = [compare_request ''sk-test'' example_order example_order]"
    by (simp add: compare_orders_POST_def example_env_def example_order_def lookup_def)
  have answer: "?llm (compare_request ''sk-test'' example_order example_order) = Inr example_comparison"
    by simp
  have conf: "overall_confidence (analysis example_comparison) = 3 / 4"
    by (simp add: example_comparison_def)
  have grid: "on_binary64_grid (3 / 4)"
    by (simp add: on_binary64_grid_def)
  from needsManualReview_threshold [OF run calls answer] conf grid calls
  show ?thesis by simp
qed

section \<open>Properties of processSelectedImages\<close>

lemma lookup_obj_put [simp]: "lookup (obj_put kvs k v) k = v"
  by (induction kvs) (auto simp: lookup_def)

lemma lookup_obj_put_other: "k' \<noteq> k \<Longrightarrow> lookup (obj_put kvs k v) k' = lookup kvs k'"
  by (induction kvs) (auto simp: lookup_def)

lemma extract_loop_acc:
  "extract_loop br imgs acc w =
     (case extract_loop br imgs [] w of (r, st, w') \<Rightarrow> (acc @ r, st, w'))"
proof (induction imgs arbitrary: acc w)
  case Nil
  show ?case by simp
next
  case (Cons img rest)
  obtain e st w1 where p: "process_page br img w = (e, st, w1)"
    by (cases "process_page br img w") auto
  obtain r st' w2 where l: "extract_loop br rest [] w1 = (r, st', w2)"
    by (cases "extract_loop br rest [] w1") auto
  have a: "extract_loop br rest (acc @ [e]) w1 = ((acc @ [e]) @ r, st', w2)"
    using Cons.IH [of "acc @ [e]" w1] l by simp
  have b: "extract_loop br rest ([] @ [e]) w1 = ([e] @ r, st', w2)"
    using Cons.IH [of "[e]" w1] l by simp
  show ?case using p a b by simp
qed

lemma extract_loop_outcomes:
  "extract_loop br imgs [] w =
     (map fst (page_outcomes br imgs w), concat (map snd (page_outcomes br imgs w)),
      snd (snd (extract_loop br imgs [] w)))"
proof (induction imgs arbitrary: w)
  case Nil
  show ?case by simp
next
  case (Cons img rest)
  obtain e st w1 where p: "process_page br img w = (e, st, w1)"
    by (cases "process_page br img w") auto
  have a: "extract_loop br rest ([] @ [e]) w1 =
      ([e] @ map fst (page_outcomes br rest w1), concat (map snd (page_outcomes br rest w1)),
       snd (snd (extract_loop br rest [] w1)))"
    by (subst extract_loop_acc, subst Cons.IH) simp
  show ?case using p a by simp
qed

lemma length_page_outcomes [simp]: "length (page_outcomes br imgs w) = length imgs"
  by (induction imgs arbitrary: w) (auto split: prod.splits)

lemma failure_entry_tag [simp]: "lookup (failure_entry ts n) ''pageNumber'' = n"
  by (simp add: failure_entry_def lookup_def)

lemma result_entry_tag [simp]: "lookup (result_entry result n) ''pageNumber'' = n"
  by (simp add: result_entry_def)

lemma process_page_tag:
  "process_page br img w = (e, st, w1) \<Longrightarrow> lookup e ''pageNumber'' = pageNumber img"
  by (auto simp: process_page_def Let_def split: prod.splits sum.splits)

lemma page_outcomes_tags:
  "map (\<lambda>r. lookup r ''pageNumber'') (map fst (page_outcomes br imgs w)) = map pageNumber imgs"
proof (induction imgs arbitrary: w)
  case Nil
  show ?case by simp
next
  case (Cons img rest)
  obtain e st w1 where p: "process_page br img w = (e, st, w1)"
    by (cases "process_page br img w") auto
  show ?case using p process_page_tag [OF p] Cons.IH [of w1] by simp
qed

lemma run_append: "run (a @ b) s = run b (run a s)"
  by (simp add: run_def)

lemma run_io: "\<forall>st \<in> set tr. is_io st \<Longrightarrow> run tr s = s"
proof (induction tr arbitrary: s)
  case Nil
  show ?case by (simp add: run_def)
next
  case (Cons st tr)
  then have "is_io st" and rest: "\<forall>x \<in> set tr. is_io x" by simp_all
  from \<open>is_io st\<close> have "apply_step st s = s" by (cases st) simp_all
  with Cons.IH [OF rest, of s] show ?case by (simp add: run_def)
qed

lemma process_page_io:
  "process_page br img w = (e, st, w1) \<Longrightarrow> \<forall>x \<in> set st. is_io x"
  by (auto simp: process_page_def Let_def split: prod.splits sum.splits)

lemma page_outcomes_io: "\<forall>x \<in> set (concat (map snd (page_outcomes br imgs w))). is_io x"
proof (induction imgs arbitrary: w)
  case Nil
  show ?case by simp
next
  case (Cons img rest)
  obtain e st w1 where p: "process_page br img w = (e, st, w1)"
    by (cases "process_page br img w") auto
  show ?case using p process_page_io [OF p] Cons.IH [of w1] by auto
qed

lemma processSelectedImages_steps:
  assumes "selectedImages (pdf_of n s) \<noteq> []"
  shows "fst (processSelectedImages br n s w) =
     SetPdfData n StartProcessing #
     concat (map snd (page_outcomes br (selectedImages (pdf_of n s)) w)) @
     [SetPdfData n (FinishProcessing (map fst (page_outcomes br (selectedImages (pdf_of n s)) w)))]"
  using assms
  by (subst processSelectedImages_def, subst extract_loop_outcomes) (simp add: Let_def)

lemma pdf_of_set_same [simp]:
  "pdf_of n (apply_step (SetPdfData n u) s) = apply_update u (pdf_of n s)"
  by (cases n) (simp_all add: pdf_of_def)

text \<open>
  Claim C3. When at least one page is selected, the run of \<open>processSelectedImages\<close>
  leaves as the document's extraction results exactly the entries of the selected pages,
  one per page in page order: as many as pages were selected when it was triggered, the
  entry of each page carrying that page's \<open>pageNumber\<close> whether its extraction
  succeeded or failed. The run ends with the setter that stores them, and that setter
  replaces whatever results the state held (\<open>prev\<close> is any state of the document,
  \<open>s0\<close> any state the steps are applied to).
\<close>

theorem extraction_results_replaced:
  assumes "selectedImages (pdf_of n s) \<noteq> []"
  shows "extractedData (pdf_of n (run (fst (processSelectedImages br n s w)) s0))
           = map fst (page_outcomes br (selectedImages (pdf_of n s)) w)
       \<and> length (extractedData (pdf_of n (run (fst (processSelectedImages br n s w)) s0)))
           = length (selectedImages (pdf_of n s))
       \<and> map (\<lambda>r. lookup r ''pageNumber'')
             (extractedData (pdf_of n (run (fst (processSelectedImages br n s w)) s0)))
           = map pageNumber (selectedImages (pdf_of n s))
       \<and> last (fst (processSelectedImages br n s w))
           = SetPdfData n (FinishProcessing (map fst (page_outcomes br (selectedImages (pdf_of n s)) w)))
       \<and> extractedData (apply_update
             (FinishProcessing (map fst (page_outcomes br (selectedImages (pdf_of n s)) w))) prev)
           = map fst (page_outcomes br (selectedImages (pdf_of n s)) w)"
proof -
  let ?sel = "selectedImages (pdf_of n s)"
  let ?out = "page_outcomes br ?sel w"
  have mid: "run (concat (map snd ?out)) s1 = s1" for s1
    by (rule run_io) (rule page_outcomes_io)
  have "run (fst (processSelectedImages br n s w)) s0 =
          apply_step (SetPdfData n (FinishProcessing (map fst ?out)))
            (apply_step (SetPdfData n StartProcessing) s0)"
    unfolding processSelectedImages_steps [OF assms]
    using mid [of "apply_step (SetPdfData n StartProcessing) s0"]
    by (simp add: run_def)
  then have final: "extractedData (pdf_of n (run (fst (processSelectedImages br n s w)) s0)) = map fst ?out"
    by simp
  have lst: "last (fst (processSelectedImages br n s w)) = SetPdfData n (FinishProcessing (map fst ?out))"
    unfolding processSelectedImages_steps [OF assms] by simp
  show ?thesis
    unfolding final lst using page_outcomes_tags [of br ?sel w] by simp
qed

lemma example_selected:
  "selectedImages (pdf_of Pdf1 example_state) = [example_page 1 True, example_page 3 True]"
  by (simp add: selectedImages_def pdf_of_def example_state_def example_page_def)

lemma example_outcomes:
  "map fst (page_outcomes example_browser [example_page 1 True, example_page 3 True] 0) =
     [result_entry example_extraction (JNum 1), failure_entry example_to_string (JNum 3)]"
  by (simp add: process_page_def example_browser_def example_page_def example_to_string_def
        dec.simps)

theorem extraction_results_replaced_witness:
  "selectedImages (pdf_of Pdf1 example_state) \<noteq> []
   \<and> length (extractedData (pdf_of Pdf1 example_state)) = 3
   \<and> extractedData (pdf_of Pdf1
         (run (fst (processSelectedImages example_browser Pdf1 example_state 0)) example_state))
       = [result_entry example_extraction (JNum 1), failure_entry example_to_string (JNum 3)]"
proof -
  have sel: "selectedImages (pdf_of Pdf1 example_state) \<noteq> []"
    by (simp add: example_selected)
  have old: "length (extractedData (pdf_of Pdf1 example_state)) = 3"
    by (simp add: example_state_def pdf_of_def)
  have "extractedData (pdf_of Pdf1
           (run (fst (processSelectedImages example_browser Pdf1 example_state 0)) example_state))
        = map fst (page_outcomes example_browser (selectedImages (pdf_of Pdf1 example_state)) 0)"
    using extraction_results_replaced [OF sel, where br = example_browser and w = 0 and ?s0.0 = example_state]
    by (rule conjunct1)
  also have "\<dots> = [result_entry example_extraction (JNum 1), failure_entry example_to_string (JNum 3)]"
    unfolding example_selected by (rule example_outcomes)
  finally show ?thesis using sel old by blast
qed

lemma requests_append [simp]: "requests (a @ b) = requests a @ requests b"
  by (induction a rule: requests.induct) simp_all

lemma fetched_urls_append [simp]: "fetched_urls (a @ b) = fetched_urls a @ fetched_urls b"
  by (induction a rule: fetched_urls.induct) simp_all

lemma alternating_append: "alternating a \<Longrightarrow> alternating b \<Longrightarrow> alternating (a @ b)"
  by (induction a rule: alternating.induct) simp_all

lemma process_page_requests:
  "process_page br img w = (e, st, w1) \<Longrightarrow>
     fetched_urls (requests st) = [imageDataUrl img] \<and> alternating st"
  by (auto simp: process_page_def Let_def split: prod.splits sum.splits)

lemma page_outcomes_requests:
  "fetched_urls (requests (concat (map snd (page_outcomes br imgs w)))) = map imageDataUrl imgs
   \<and> alternating (concat (map snd (page_outcomes br imgs w)))"
proof (induction imgs arbitrary: w)
  case Nil
  show ?case by simp
next
  case (Cons img rest)
  obtain e st w1 where p: "process_page br img w = (e, st, w1)"
    by (cases "process_page br img w") auto
  show ?case using p process_page_requests [OF p] Cons.IH [of w1]
    by (simp add: alternating_append)
qed

lemma filter_io_outcomes:
  "filter is_io (concat (map snd (page_outcomes br imgs w))) = concat (map snd (page_outcomes br imgs w))"
  using page_outcomes_io [of br imgs w] by (simp add: filter_id_conv)

lemma answered_append:
  "answered br a w = Some w1 \<Longrightarrow> answered br (a @ b) w = answered br b w1"
  by (induction br a w rule: answered.induct) (auto split: prod.splits if_splits)

lemma process_page_answered:
  "process_page br img w = (e, st, w1) \<Longrightarrow> answered br st w = Some w1"
  by (auto simp: process_page_def Let_def split: prod.splits sum.splits)

lemma extract_loop_answered:
  "extract_loop br imgs acc w = (r, st, w') \<Longrightarrow> answered br st w = Some w'"
proof (induction imgs arbitrary: acc w r st w')
  case Nil
  then show ?case by simp
next
  case (Cons img rest)
  obtain e st1 w1 where p: "process_page br img w = (e, st1, w1)"
    by (cases "process_page br img w") auto
  obtain r2 st2 w2 where l: "extract_loop br rest (acc @ [e]) w1 = (r2, st2, w2)"
    by (cases "extract_loop br rest (acc @ [e]) w1") auto
  from Cons.prems p l have st: "st = st1 @ st2" and w': "w' = w2" by simp_all
  from answered_append [OF process_page_answered [OF p], of st2] Cons.IH [OF l]
  show ?case by (simp add: st w')
qed

lemma processSelectedImages_answered:
  "answered br (fst (processSelectedImages br n s w)) w = Some (snd (processSelectedImages br n s w))"
proof (cases "selectedImages (pdf_of n s) = []")
  case True
  then show ?thesis by (simp add: processSelectedImages_def Let_def)
next
  case False
  obtain r st w' where l: "extract_loop br (selectedImages (pdf_of n s)) [] w = (r, st, w')"
    by (cases "extract_loop br (selectedImages (pdf_of n s)) [] w") auto
  from answered_append [OF extract_loop_answered [OF l], of "[SetPdfData n (FinishProcessing r)]"]
  show ?thesis using False l by (simp add: processSelectedImages_def Let_def)
qed

lemma entry_keeps_properties:
  "list_all (\<lambda>k. k = p \<or> lookup (obj_put kvs p n) k = lookup kvs k) ks"
proof -
  have "k = p \<or> lookup (obj_put kvs p n) k = lookup kvs k" for k
    using lookup_obj_put_other [of k p kvs n] by blast
  then show ?thesis by (simp add: list_all_iff)
qed

lemma answer_entry:
  "lookup (obj_put (spread result) ''pageNumber'' n) ''pageNumber'' = n
   \<and> (case result of
         JObj kvs \<Rightarrow>
           list_all (\<lambda>k. k = ''pageNumber'' \<or>
               lookup (obj_put (spread result) ''pageNumber'' n) k = lookup kvs k) (map fst kvs)
       | _ \<Rightarrow> True)"
proof -
  have "lookup (obj_put (spread result) ''pageNumber'' n) ''pageNumber'' = n"
    by (rule lookup_obj_put)
  moreover have "case result of
         JObj kvs \<Rightarrow>
           list_all (\<lambda>k. k = ''pageNumber'' \<or>
               lookup (obj_put (spread result) ''pageNumber'' n) k = lookup kvs k) (map fst kvs)
       | _ \<Rightarrow> True"
    by (cases result) (simp_all add: entry_keeps_properties)
  ultimately show ?thesis by blast
qed

lemma process_page_block:
  assumes "process_page br img w = (e, st, w1)"
  shows "page_block (to_string br) img (e, st)"
proof (cases "fetch_url br (imageDataUrl img) w")
  case (Pair a wa)
  show ?thesis
  proof (cases a)
    case (Inl ex)
    with Pair assms show ?thesis
      by (auto simp: process_page_def failure_entry_def failed_page_def)
  next
    case (Inr blob)
    let ?name = "''page-'' @ template (to_string br) (pageNumber img) @ ''.jpg''"
    obtain b wb where post: "post_extract br blob ?name wa = (b, wb)"
      by (cases "post_extract br blob ?name wa") auto
    show ?thesis
    proof (cases b)
      case (Inl ex)
      with Pair \<open>a = Inr blob\<close> post assms show ?thesis
        by (auto simp: process_page_def failure_entry_def failed_page_def page_file_name_def)
    next
      case (Inr result)
      with Pair \<open>a = Inr blob\<close> post assms
      have e: "e = obj_put (spread result) ''pageNumber'' (pageNumber img)"
        and st: "st = [Call (GetUrl (imageDataUrl img)), Return (GotBlob blob),
                       Call (PostExtract blob (page_file_name (to_string br) img)),
                       Return (GotJson result)]"
        by (auto simp: process_page_def result_entry_def page_file_name_def)
      show ?thesis
        unfolding e st using answer_entry [of result "pageNumber img"] by simp
    qed
  qed
qed

lemma page_outcomes_block:
  "list_all2 (page_block (to_string br)) imgs (page_outcomes br imgs w)"
proof (induction imgs arbitrary: w)
  case Nil
  show ?case by simp
next
  case (Cons img rest)
  obtain e st w1 where p: "process_page br img w = (e, st, w1)"
    by (cases "process_page br img w") auto
  show ?case using p process_page_block [OF p] Cons.IH [of w1] by simp
qed

lemma extraction_names_append [simp]:
  "extraction_names (a @ b) = extraction_names a @ extraction_names b"
  by (induction a rule: extraction_names.induct) simp_all

lemma process_page_names:
  "process_page br img w = (e, st, w1) \<Longrightarrow>
     extraction_names (requests st) = [] \<or>
     extraction_names (requests st) = [page_file_name (to_string br) img]"
  by (auto simp: process_page_def Let_def page_file_name_def split: prod.splits sum.splits)

lemma page_outcomes_names:
  "subseq (extraction_names (requests (concat (map snd (page_outcomes br imgs w)))))
     (map (page_file_name (to_string br)) imgs)"
proof (induction imgs arbitrary: w)
  case Nil
  show ?case by simp
next
  case (Cons img rest)
  obtain e st w1 where p: "process_page br img w = (e, st, w1)"
    by (cases "process_page br img w") auto
  from process_page_names [OF p] Cons.IH [of w1] p show ?case
    by (auto intro: list_emb_Cons)
qed

text \<open>
  Claim C4. When at least one page is selected, the steps of \<open>processSelectedImages\<close>
  are the setter that starts processing, then the steps of the selected pages one page
  after the other in page order, then the setter that stores the entries. The steps and
  the entry of each page are those of \<open>page_block\<close>: the page's image is requested,
  and unless that throws the image is sent to the extraction route under the page's
  file name; a throw of either request gives the page's failure entry (success false,
  the message, the page number) and the loop goes on, an answer gives the entry made of
  it. Every reply is the browser's answer to the request just before it, in the world
  the earlier requests left behind, so each request is completed before the next is
  sent. The image of every selected page is requested, in page order, whatever
  happened to the pages before it, and the extraction requests follow the page order.
\<close>

theorem pages_processed_one_at_a_time:
  assumes "selectedImages (pdf_of n s) \<noteq> []"
  shows "fst (processSelectedImages br n s w) =
           SetPdfData n StartProcessing #
           concat (map snd (page_outcomes br (selectedImages (pdf_of n s)) w)) @
           [SetPdfData n (FinishProcessing (map fst (page_outcomes br (selectedImages (pdf_of n s)) w)))]
       \<and> list_all2 (page_block (to_string br)) (selectedImages (pdf_of n s))
             (page_outcomes br (selectedImages (pdf_of n s)) w)
       \<and> answered br (fst (processSelectedImages br n s w)) w
           = Some (snd (processSelectedImages br n s w))
       \<and> fetched_urls (requests (fst (processSelectedImages br n s w)))
           = map imageDataUrl (selectedImages (pdf_of n s))
       \<and> subseq (extraction_names (requests (fst (processSelectedImages br n s w))))
             (map (page_file_name (to_string br)) (selectedImages (pdf_of n s)))
       \<and> alternating (filter is_io (fst (processSelectedImages br n s w)))"
proof -
  let ?sel = "selectedImages (pdf_of n s)"
  note st = processSelectedImages_steps [OF assms, of br w]
  have a: "fetched_urls (requests (fst (processSelectedImages br n s w))) = map imageDataUrl ?sel"
    unfolding st using page_outcomes_requests [of br ?sel w] by simp
  have b: "subseq (extraction_names (requests (fst (processSelectedImages br n s w))))
             (map (page_file_name (to_string br)) ?sel)"
    unfolding st using page_outcomes_names [of br ?sel w] by simp
  have c: "alternating (filter is_io (fst (processSelectedImages br n s w)))"
    unfolding st using page_outcomes_requests [of br ?sel w] by (simp add: filter_io_outcomes)
  from st page_outcomes_block [of br ?sel w] processSelectedImages_answered [of br n s w] a b c
  show ?thesis by blast
qed

lemma example_steps:
  "concat (map snd (page_outcomes example_browser [example_page 1 True, example_page 3 True] 0)) =
     [Call (GetUrl (JStr ''data:image/jpeg;base64,1'')), Return (GotBlob ''jpeg''),
      Call (PostExtract ''jpeg'' ''page-1.jpg''), Return (GotJson example_extraction),
      Call (GetUrl (JStr ''data:image/jpeg;base64,3'')), Return (GotBlob ''jpeg''),
      Call (PostExtract ''jpeg'' ''page-3.jpg''), Return (Threw (ErrorObj ''Failed to fetch''))]"
  by (simp add: process_page_def example_browser_def example_page_def example_to_string_def
        dec.simps)

lemma example_entries:
  "map fst (page_outcomes example_browser [example_page 1 True, example_page 3 True] 0) =
     [[(''success'', JBool True), (''data'', example_order),
       (''extractedAt'', JStr ''2025-06-01T10:00:00.000Z''), (''pageNumber'', JNum 1)],
      [(''success'', JBool False), (''error'', JStr ''Failed to process page 3''),
       (''pageNumber'', JNum 3)]]"
  by (simp add: process_page_def example_browser_def example_page_def example_to_string_def
        example_extraction_def result_entry_def failure_entry_def dec.simps)

theorem pages_processed_one_at_a_time_witness:
  "selectedImages (pdf_of Pdf1 example_state) \<noteq> []
   \<and> fst (processSelectedImages example_browser Pdf1 example_state 0) =
       [SetPdfData Pdf1 StartProcessing,
        Call (GetUrl (JStr ''data:image/jpeg;base64,1'')), Return (GotBlob ''jpeg''),
        Call (PostExtract ''jpeg'' ''page-1.jpg''), Return (GotJson example_extraction),
        Call (GetUrl (JStr ''data:image/jpeg;base64,3'')), Return (GotBlob ''jpeg''),
        Call (PostExtract ''jpeg'' ''page-3.jpg''), Return (Threw (ErrorObj ''Failed to fetch'')),
        SetPdfData Pdf1 (FinishProcessing
          [[(''success'', JBool True), (''data'', example_order),
            (''extractedAt'', JStr ''2025-06-01T10:00:00.000Z''), (''pageNumber'', JNum 1)],
           [(''success'', JBool False), (''error'', JStr ''Failed to process page 3''),
            (''pageNumber'', JNum 3)]])]"
proof -
  have sel: "selectedImages (pdf_of Pdf1 example_state) \<noteq> []"
    by (simp add: example_selected)
  have "fst (processSelectedImages example_browser Pdf1 example_state 0) =
           SetPdfData Pdf1 StartProcessing #
           concat (map snd (page_outcomes example_browser (selectedImages (pdf_of Pdf1 example_state)) 0)) @
           [SetPdfData Pdf1 (FinishProcessing
              (map fst (page_outcomes example_browser (selectedImages (pdf_of Pdf1 example_state)) 0)))]"
    using pages_processed_one_at_a_time [OF sel, where br = example_browser and w = 0]
    by (rule conjunct1)
  then show ?thesis
    unfolding example_selected example_entries example_steps using sel by simp
qed

text \<open>
  Claim C7. When no page of the document is selected, \<open>processSelectedImages\<close> only
  alerts: it sends no request, the world is as before, and its steps leave every state
  they are applied to unchanged, the stored extraction results included.
\<close>

theorem no_selection_no_extraction:
  assumes "selectedImages (pdf_of n s) = []"
  shows "processSelectedImages br n s w = ([Alert ''Please select at least one page to process''], w)
       \<and> requests (fst (processSelectedImages br n s w)) = []
       \<and> run (fst (processSelectedImages br n s w)) s0 = s0"
  using assms by (simp add: processSelectedImages_def Let_def run_def)

theorem no_selection_no_extraction_witness:
  "selectedImages (pdf_of Pdf2 example_state) = []
   \<and> length (extractedData (pdf_of Pdf2 example_state)) = 1
   \<and> processSelectedImages example_browser Pdf2 example_state 0
       = ([Alert ''Please select at least one page to process''], 0)
   \<and> run (fst (processSelectedImages example_browser Pdf2 example_state 0)) example_state
       = example_state"
proof -
  have sel: "selectedImages (pdf_of Pdf2 example_state) = []"
    by (simp add: selectedImages_def pdf_of_def example_state_def example_page_def)
  have old: "length (extractedData (pdf_of Pdf2 example_state)) = 1"
    by (simp add: pdf_of_def example_state_def)
  from no_selection_no_extraction [OF sel, where br = example_browser and w = 0 and ?s0.0 = example_state]
  show ?thesis using sel old by blast
qed

section \<open>Properties of compareOrders\<close>

text \<open>
  Successful results carry their data in every state the component reaches: the
  results of a document are empty at first and after an upload, and a run of
  \<open>processSelectedImages\<close> stores entries that are failure entries or made of an
  answer of an extraction route, whose success body always has \<open>data\<close>.
\<close>

lemma carries_data_result_entry:
  "carries_data (result_entry (JObj kvs) n)
     = (truthy (lookup kvs ''success'') \<longrightarrow> truthy (lookup kvs ''data''))"
  by (simp add: carries_data_def successful_def result_entry_def lookup_obj_put_other)

lemma carries_data_body:
  "carries_data (result_entry (body (NextResponse_json [(''error'', JStr m)] st hs)) n)"
  "carries_data (result_entry (body (caught fb hs ex)) n)"
  "carries_data (result_entry (body (NextResponse_json
       [(''success'', JBool True), (''data'', JObj r), (''extractedAt'', JStr now)] 200 hs)) n)"
  by (simp_all add: NextResponse_json_def caught_def carries_data_result_entry lookup_def)

lemma extraction_entries_carry_data:
  "carries_data (result_entry (body (fst (extract_image_POST e llm now ireq))) n)"
  "carries_data (result_entry (body (fst (extract_text_POST e llm now treq))) n)"
  "carries_data (failure_entry ts n)"
proof -
  show "carries_data (result_entry (body (fst (extract_image_POST e llm now ireq))) n)"
    by (auto simp: extract_image_POST_def Let_def carries_data_body
          split: sum.splits option.splits form_value.splits)
  show "carries_data (result_entry (body (fst (extract_text_POST e llm now treq))) n)"
    by (auto simp: extract_text_POST_def Let_def carries_data_body
          split: sum.splits option.splits json.splits)
  show "carries_data (failure_entry ts n)"
    by (simp add: carries_data_def successful_def failure_entry_def lookup_def)
qed

lemma process_page_carries_data:
  assumes answers: "\<And>blob name w result w' n.
      post_extract br blob name w = (Inr result, w') \<Longrightarrow> carries_data (result_entry result n)"
    and page: "process_page br img w = (entry, steps, w1)"
  shows "carries_data entry"
proof (cases "fetch_url br (imageDataUrl img) w")
  case (Pair a wa)
  show ?thesis
  proof (cases a)
    case (Inl ex)
    with Pair page show ?thesis
      by (auto simp: process_page_def extraction_entries_carry_data(3))
  next
    case (Inr blob)
    let ?name = "''page-'' @ template (to_string br) (pageNumber img) @ ''.jpg''"
    obtain b wb where post: "post_extract br blob ?name wa = (b, wb)"
      by (cases "post_extract br blob ?name wa") auto
    show ?thesis
    proof (cases b)
      case (Inl ex)
      with Pair \<open>a = Inr blob\<close> post page show ?thesis
        by (auto simp: process_page_def extraction_entries_carry_data(3))
    next
      case (Inr result)
      with post have "carries_data (result_entry result (pageNumber img))"
        by (intro answers) simp
      with Pair \<open>a = Inr blob\<close> post Inr page show ?thesis
        by (auto simp: process_page_def)
    qed
  qed
qed

lemma page_outcomes_carry_data:
  assumes answers: "\<And>blob name w result w' n.
      post_extract br blob name w = (Inr result, w') \<Longrightarrow> carries_data (result_entry result n)"
  shows "\<forall>entry \<in> set (map fst (page_outcomes br imgs w)). carries_data entry"
proof (induction imgs arbitrary: w)
  case Nil
  show ?case by simp
next
  case (Cons img rest)
  obtain e st w1 where p: "process_page br img w = (e, st, w1)"
    by (cases "process_page br img w") auto
  from process_page_carries_data [OF answers p] have "carries_data e" by simp
  with p Cons.IH [of w1] show ?case by simp
qed

lemma first_success_data_none:
  "\<not> has_success results \<Longrightarrow> first_success_data results = JUndefined"
  by (induction results) (auto simp: has_success_def first_success_data_def successful_def)

lemma first_success_data_split:
  "has_success results \<Longrightarrow>
     \<exists>pre r post. results = pre @ r # post \<and> \<not> has_success pre \<and> successful r
        \<and> first_success_data results = lookup r ''data''"
proof (induction results)
  case Nil
  then show ?case by (simp add: has_success_def)
next
  case (Cons x xs)
  show ?case
  proof (cases "successful x")
    case True
    have "x # xs = [] @ x # xs \<and> \<not> has_success [] \<and> successful x
        \<and> first_success_data (x # xs) = lookup x ''data''"
      using True by (simp add: has_success_def first_success_data_def successful_def)
    then show ?thesis by blast
  next
    case False
    with Cons.prems have "has_success xs" by (simp add: has_success_def)
    from Cons.IH [OF this] obtain pre r post where
      s: "xs = pre @ r # post" "\<not> has_success pre" "successful r"
         "first_success_data xs = lookup r ''data''"
      by blast
    have "x # xs = (x # pre) @ r # post \<and> \<not> has_success (x # pre) \<and> successful r
        \<and> first_success_data (x # xs) = lookup r ''data''"
      using s False by (simp add: has_success_def first_success_data_def successful_def)
    then show ?thesis by blast
  qed
qed

lemma first_success_data_truthy:
  assumes "\<forall>r \<in> set results. carries_data r"
  shows "truthy (first_success_data results) = has_success results"
proof (cases "has_success results")
  case False
  then show ?thesis by (simp add: first_success_data_none)
next
  case True
  from first_success_data_split [OF True] obtain pre r post where
    s: "results = pre @ r # post" "successful r" "first_success_data results = lookup r ''data''"
    by blast
  from s(1) assms have "carries_data r" by simp
  with s(2,3) True show ?thesis by (simp add: carries_data_def)
qed

lemma compareOrders_requests:
  "requests (fst (compareOrders br s w)) =
     (if truthy (first_success_data (extractedData (pdf1 s)))
         \<and> truthy (first_success_data (extractedData (pdf2 s)))
      then [PostCompare (first_success_data (extractedData (pdf1 s)))
                        (first_success_data (extractedData (pdf2 s)))]
      else [])"
  by (auto simp: compareOrders_def Let_def split: prod.splits sum.splits)

text \<open>
  Claim C2. For two documents whose successful extraction results carry their data (as
  the data model has it, and as the extraction routes answer), \<open>compareOrders\<close>
  sends a request exactly when each document has a successful result. When one has
  none, it only alerts and the world is as before. When both have one, the single
  request is the comparison of the data of the first successful result of each
  document: no successful result stands before it in the array, and no other result
  contributes.
\<close>

theorem compareOrders_gate:
  assumes wf: "\<forall>r \<in> set (extractedData (pdf1 s)) \<union> set (extractedData (pdf2 s)). carries_data r"
  shows "(requests (fst (compareOrders br s w)) \<noteq> [])
           = (has_success (extractedData (pdf1 s)) \<and> has_success (extractedData (pdf2 s)))
       \<and> (\<not> (has_success (extractedData (pdf1 s)) \<and> has_success (extractedData (pdf2 s))) \<longrightarrow>
            compareOrders br s w =
              ([Alert ''Please ensure both PDFs have been processed and have successful extractions before comparing.''], w))
       \<and> (has_success (extractedData (pdf1 s)) \<and> has_success (extractedData (pdf2 s)) \<longrightarrow>
            (\<exists>pre1 r1 post1 pre2 r2 post2.
               extractedData (pdf1 s) = pre1 @ r1 # post1 \<and> \<not> has_success pre1 \<and> successful r1
             \<and> extractedData (pdf2 s) = pre2 @ r2 # post2 \<and> \<not> has_success pre2 \<and> successful r2
             \<and> requests (fst (compareOrders br s w))
                 = [PostCompare (lookup r1 ''data'') (lookup r2 ''data'')]))"
proof -
  let ?d1 = "extractedData (pdf1 s)" and ?d2 = "extractedData (pdf2 s)"
  have t1: "truthy (first_success_data ?d1) = has_success ?d1"
    using wf by (intro first_success_data_truthy) simp
  have t2: "truthy (first_success_data ?d2) = has_success ?d2"
    using wf by (intro first_success_data_truthy) simp
  have a: "(requests (fst (compareOrders br s w)) \<noteq> []) = (has_success ?d1 \<and> has_success ?d2)"
    by (simp add: compareOrders_requests t1 t2)
  have b: "compareOrders br s w =
      ([Alert ''Please ensure both PDFs have been processed and have successful extractions before comparing.''], w)"
    if "\<not> (has_success ?d1 \<and> has_success ?d2)"
    using that t1 t2 by (auto simp: compareOrders_def Let_def)
  have c: "\<exists>pre1 r1 post1 pre2 r2 post2.
               ?d1 = pre1 @ r1 # post1 \<and> \<not> has_success pre1 \<and> successful r1
             \<and> ?d2 = pre2 @ r2 # post2 \<and> \<not> has_success pre2 \<and> successful r2
             \<and> requests (fst (compareOrders br s w))
                 = [PostCompare (lookup r1 ''data'') (lookup r2 ''data'')]"
    if h: "has_success ?d1 \<and> has_success ?d2"
  proof -
    from h first_success_data_split [of ?d1] obtain pre1 r1 post1 where
      s1: "?d1 = pre1 @ r1 # post1" "\<not> has_success pre1" "successful r1"
          "first_success_data ?d1 = lookup r1 ''data''"
      by blast
    from h first_success_data_split [of ?d2] obtain pre2 r2 post2 where
      s2: "?d2 = pre2 @ r2 # post2" "\<not> has_success pre2" "successful r2"
          "first_success_data ?d2 = lookup r2 ''data''"
      by blast
    have "requests (fst (compareOrders br s w)) = [PostCompare (lookup r1 ''data'') (lookup r2 ''data'')]"
      using h t1 t2 s1(4) s2(4) by (simp add: compareOrders_requests)
    with s1(1-3) s2(1-3) show ?thesis by blast
  qed
  from a b c show ?thesis by blast
qed

lemma example_carries_data:
  "\<forall>r \<in> set (extractedData (pdf1 example_state)) \<union> set (extractedData (pdf2 example_state)).
     carries_data r"
  by (simp add: example_state_def example_order_def carries_data_def successful_def lookup_def)

lemma example_has_success:
  "has_success (extractedData (pdf1 example_state)) \<and> has_success (extractedData (pdf2 example_state))"
  by (simp add: example_state_def has_success_def successful_def lookup_def)

lemma example_compare_steps:
  "fst (compareOrders example_browser example_state 0) =
     [SetComparing True, SetComparisonResult JNull,
      Call (PostCompare example_order (JObj [(''OrderNumber'', JStr ''SO-1002'')])),
      Return (GotJson (JObj [(''success'', JBool False), (''error'', JStr ''rate limited'')])),
      SetComparisonResult (JObj [(''success'', JBool False), (''error'', JStr ''rate limited'')]),
      SetComparing False]"
  by (simp add: compareOrders_def first_success_data_def example_state_def example_browser_def
        lookup_def example_order_def)

theorem compareOrders_gate_witness:
  "has_success (extractedData (pdf1 example_state))
   \<and> has_success (extractedData (pdf2 example_state))
   \<and> requests (fst (compareOrders example_browser example_state 0)) \<noteq> []
   \<and> requests (fst (compareOrders example_browser example_state 0))
       = [PostCompare example_order (JObj [(''OrderNumber'', JStr ''SO-1002'')])]"
proof -
  have "requests (fst (compareOrders example_browser example_state 0)) \<noteq> []"
    using compareOrders_gate [OF example_carries_data, of example_browser 0] example_has_success
    by blast
  moreover have "requests (fst (compareOrders example_browser example_state 0))
       = [PostCompare example_order (JObj [(''OrderNumber'', JStr ''SO-1002'')])]"
    by (simp add: example_compare_steps)
  ultimately show ?thesis using example_has_success by blast
qed



section \<open>Properties of the routes\<close>

lemma shape_precondition [simp]:
  "st = 400 \<or> st = 500 \<Longrightarrow>
     response_shape p (NextResponse_json [(''error'', JStr m)] st hs) = PreconditionShape"
  by (auto simp: response_shape_def NextResponse_json_def lookup_def)

lemma shape_caught [simp]: "response_shape p (caught fb hs ex) = ExceptionShape"
  by (simp add: response_shape_def caught_def NextResponse_json_def lookup_def)

lemma shape_extracted [simp]:
  "response_shape ''data''
     (NextResponse_json [(''success'', JBool True), (''data'', JObj r), (''extractedAt'', JStr now)] 200 hs)
   = OkShape"
  by (simp add: response_shape_def NextResponse_json_def lookup_def)

lemma convert_result_obj:
  "convert_result ts result = Inr obj \<Longrightarrow>
     \<exists>fs ps cost. get result ''Files'' = Inr (JArr fs) \<and> page_images ts 0 fs = Inr ps
       \<and> obj = [(''success'', JBool True), (''totalPages'', JNum (of_nat (length fs))),
                 (''pages'', JArr ps), (''conversionInfo'', JObj [(''conversionCost'', cost)])]"
  by (auto simp: convert_result_def split: sum.splits if_splits json.splits)

lemma shape_converted [simp]:
  "convert_result ts result = Inr obj \<Longrightarrow> response_shape ''pages'' (NextResponse_json obj 200 hs) = OkShape"
proof -
  assume "convert_result ts result = Inr obj"
  from convert_result_obj [OF this] obtain fs ps cost where
    "obj = [(''success'', JBool True), (''totalPages'', JNum (of_nat (length (fs :: json list)))),
            (''pages'', JArr ps), (''conversionInfo'', JObj [(''conversionCost'', cost)])]"
    by blast
  then show ?thesis
    by (simp add: response_shape_def NextResponse_json_def lookup_def)
qed

lemma process_pdf_shape:
  "response_shape ''pages'' (fst (process_pdf_POST e ts convertapi req)) \<noteq> OtherShape"
  by (auto simp: process_pdf_POST_def Let_def
           split: sum.splits option.splits fetch_result.splits)

lemma extract_image_shape:
  "response_shape ''data'' (fst (extract_image_POST e llm now req)) \<noteq> OtherShape"
  by (auto simp: extract_image_POST_def Let_def
           split: sum.splits option.splits form_value.splits)

lemma extract_text_shape:
  "response_shape ''data'' (fst (extract_text_POST e llm now req)) \<noteq> OtherShape"
  by (auto simp: extract_text_POST_def Let_def
           split: sum.splits option.splits json.splits)

lemma precondition_shape_falsy:
  assumes "response_shape p r = PreconditionShape"
  shows "get (body r) ''success'' = Inr JUndefined \<and> \<not> successful (result_entry (body r) n)"
proof -
  from assms obtain kvs where b: "body r = JObj kvs" and k: "map fst kvs = [''error'']"
    by (auto simp: response_shape_def split: json.splits if_splits)
  from k obtain v where "kvs = [(''error'', v)]"
    by (cases kvs) auto
  with b show ?thesis
    by (simp add: lookup_def successful_def result_entry_def)
qed

lemma page_image_wire:
  "page_image ts i f = Inr p \<Longrightarrow>
     get (wire p) ''pageNumber'' = Inr (JNum (of_nat (i + 1)))
   \<and> (\<exists>d. get f ''FileData'' = Inr d
          \<and> get (wire p) ''imageDataUrl'' = Inr (JStr (''data:image/jpeg;base64,'' @ template ts d)))
   \<and> wire p \<noteq> JUndefined"
  by (auto simp: page_image_def lookup_def split: sum.splits)

lemma page_images_wire:
  "page_images ts i fs = Inr ps \<Longrightarrow>
     length ps = length fs
   \<and> map (\<lambda>p. get (wire p) ''pageNumber'') ps = map (\<lambda>k. Inr (JNum (of_nat k))) [Suc i ..< Suc i + length fs]
   \<and> list_all2 (\<lambda>f p. \<exists>d. get f ''FileData'' = Inr d
          \<and> get (wire p) ''imageDataUrl'' = Inr (JStr (''data:image/jpeg;base64,'' @ template ts d))) fs ps
   \<and> JUndefined \<notin> set (map wire ps)"
proof (induction fs arbitrary: i ps)
  case Nil
  then show ?case by simp
next
  case (Cons f fs)
  from Cons.prems obtain p ps' where
    p: "page_image ts i f = Inr p" and ps': "page_images ts (i + 1) fs = Inr ps'" and ps: "ps = p # ps'"
    by (auto split: sum.splits)
  have up: "[Suc i ..< Suc i + length (f # fs)] = Suc i # [Suc (i + 1) ..< Suc (i + 1) + length fs]"
    by (simp add: upt_rec)
  show ?case
    unfolding ps up using page_image_wire [OF p] Cons.IH [OF ps']
    by (simp add: eq_commute [of JUndefined])
qed

lemma response_pages_converted:
  assumes "JUndefined \<notin> set (map wire ps)"
  shows "response_pages (NextResponse_json
            [(''success'', JBool True), (''totalPages'', t), (''pages'', JArr ps), (''conversionInfo'', c)]
            st hs) = map wire ps"
proof -
  have "map (\<lambda>x. if x = JUndefined then JNull else x) (map wire ps) = map wire ps"
    using assms by (induction ps) auto
  then show ?thesis
    by (simp add: response_pages_def NextResponse_json_def lookup_def)
qed

text \<open>
  Claim C8. Whenever the conversion route answers with status 200, it has called the
  conversion service once, the service's answer had an array \<open>Files\<close> of some
  length N, and the response carries N pages: the page numbers are 1, 2, ..., N in
  this order (so no two are equal), and the image of the page at each position is made
  of the \<open>FileData\<close> of the file at the same position of \<open>Files\<close>.
\<close>

theorem pages_numbered_in_source_order:
  assumes run: "process_pdf_POST e ts convertapi req = (resp, calls)"
      and success: "status resp = 200"
  shows "\<exists>call r result fs.
           calls = [call] \<and> convertapi call = Resolved r \<and> up_json r = Inr result
         \<and> get result ''Files'' = Inr (JArr fs)
         \<and> length (response_pages resp) = length fs
         \<and> map (\<lambda>p. get p ''pageNumber'') (response_pages resp)
             = map (\<lambda>k. Inr (JNum (of_nat k))) [1 ..< Suc (length fs)]
         \<and> distinct (map (\<lambda>p. get p ''pageNumber'') (response_pages resp))
         \<and> list_all2 (\<lambda>f p. \<exists>d. get f ''FileData'' = Inr d
                \<and> get p ''imageDataUrl'' = Inr (JStr (''data:image/jpeg;base64,'' @ template ts d)))
              fs (response_pages resp)"
proof -
  from run success obtain call r result obj where
    c: "calls = [call]" "convertapi call = Resolved r" "up_json r = Inr result"
       "convert_result ts result = Inr obj" "resp = NextResponse_json obj 200 []"
    by (auto simp: process_pdf_POST_def Let_def NextResponse_json_def caught_def
          split: sum.splits option.splits fetch_result.splits if_splits)
  from convert_result_obj [OF c(4)] obtain fs ps cost where
    o: "get result ''Files'' = Inr (JArr fs)" "page_images ts 0 fs = Inr ps"
       "obj = [(''success'', JBool True), (''totalPages'', JNum (of_nat (length fs))),
               (''pages'', JArr ps), (''conversionInfo'', JObj [(''conversionCost'', cost)])]"
    by blast
  note w = page_images_wire [OF o(2)]
  have pages: "response_pages resp = map wire ps"
    unfolding c(5) o(3) using w by (intro response_pages_converted) simp
  have len: "length (response_pages resp) = length fs"
    using w by (simp add: pages)
  have nums: "map (\<lambda>p. get p ''pageNumber'') (response_pages resp)
             = map (\<lambda>k. Inr (JNum (of_nat k))) [1 ..< Suc (length fs)]"
    using w by (simp add: pages comp_def)
  have "inj_on (\<lambda>k::nat. (Inr (JNum (of_nat k)) :: thrown + json)) (set [1 ..< Suc (length fs)])"
    by (simp add: inj_on_def)
  then have dist: "distinct (map (\<lambda>p. get p ''pageNumber'') (response_pages resp))"
    unfolding nums by (simp add: distinct_map)
  have urls: "list_all2 (\<lambda>f p. \<exists>d. get f ''FileData'' = Inr d
                \<and> get p ''imageDataUrl'' = Inr (JStr (''data:image/jpeg;base64,'' @ template ts d)))
              fs (response_pages resp)"
    using w by (simp add: pages list_all2_map2)
  from c(1-3) o(1) len nums dist urls show ?thesis by blast
qed

lemma example_conversion_status:
  "status (fst (process_pdf_POST example_env example_to_string example_convertapi
      (Inr [(''pdf'', FormFile example_pdf)]))) = 200"
  by (simp add: process_pdf_POST_def form_get_def convertapi_secret_def example_env_def
        example_convertapi_def ok_def convert_result_def page_image_def example_file_info_def
        lookup_def NextResponse_json_def)

theorem pages_numbered_in_source_order_witness:
  "status (fst (process_pdf_POST example_env example_to_string example_convertapi
      (Inr [(''pdf'', FormFile example_pdf)]))) = 200
   \<and> map (\<lambda>p. get p ''pageNumber'')
         (response_pages (fst (process_pdf_POST example_env example_to_string example_convertapi
            (Inr [(''pdf'', FormFile example_pdf)]))))
       = [Inr (JNum 1), Inr (JNum 2), Inr (JNum 3)]"
proof -
  let ?p = "process_pdf_POST example_env example_to_string example_convertapi
      (Inr [(''pdf'', FormFile example_pdf)])"
  have run: "?p = (fst ?p, snd ?p)" by simp
  from pages_numbered_in_source_order [OF run example_conversion_status]
  obtain call r result fs where
    f: "example_convertapi call = Resolved r" "up_json r = Inr result"
       "get result ''Files'' = Inr (JArr fs)"
    and nums: "map (\<lambda>p. get p ''pageNumber'') (response_pages (fst ?p))
             = map (\<lambda>k. Inr (JNum (of_nat k))) [1 ..< Suc (length fs)]"
    by blast
  from f have "length fs = 3"
    by (auto simp: example_convertapi_def lookup_def)
  with nums have "map (\<lambda>p. get p ''pageNumber'') (response_pages (fst ?p))
       = [Inr (JNum 1), Inr (JNum 2), Inr (JNum 3)]"
    by (simp add: upt_rec)
  with example_conversion_status show ?thesis by blast
qed

lemma get_defined: "v \<noteq> JUndefined \<Longrightarrow> v \<noteq> JNull \<Longrightarrow> \<exists>x. get v k = Inr x"
  by (cases v) simp_all

lemma page_image_defined:
  assumes "f \<noteq> JUndefined" "f \<noteq> JNull"
  shows "\<exists>p. page_image ts i f = Inr p"
proof -
  from get_defined [OF assms] obtain a b c d where
    "get f ''FileData'' = Inr a" "get f ''FileName'' = Inr b"
    "get f ''FileExt'' = Inr c" "get f ''FileSize'' = Inr d"
    by metis
  then show ?thesis by (simp add: page_image_def)
qed

lemma page_images_defined:
  "JNull \<notin> set fs \<Longrightarrow> JUndefined \<notin> set fs \<Longrightarrow> \<exists>ps. page_images ts i fs = Inr ps"
proof (induction fs arbitrary: i)
  case Nil
  show ?case by simp
next
  case (Cons f fs)
  then have "f \<noteq> JUndefined" "f \<noteq> JNull" by auto
  from page_image_defined [OF this] obtain p where p: "page_image ts i f = Inr p" by blast
  from Cons obtain ps where "page_images ts (i + 1) fs = Inr ps" by fastforce
  with p show ?case by simp
qed

lemma convert_result_fails:
  assumes "lacks_page_list (Inr result)"
  shows "\<exists>ex. convert_result ts result = Inl ex"
proof (cases "convert_result ts result")
  case (Inl ex)
  then show ?thesis by blast
next
  case (Inr obj)
  from convert_result_obj [OF Inr] assms show ?thesis by auto
qed

lemma convert_result_succeeds:
  assumes "get result ''Files'' = Inr (JArr fs)" "fs \<noteq> []" "JNull \<notin> set fs" "JUndefined \<notin> set fs"
  shows "\<exists>obj. convert_result ts result = Inr obj"
proof -
  from assms(2) obtain f rest where fs: "fs = f # rest" by (cases fs) auto
  with assms(3,4) have f: "f \<noteq> JNull" "f \<noteq> JUndefined" by auto
  then have keys: "Object_keys f = Inr ()" by (cases f) simp_all
  from assms(1) have "result \<noteq> JUndefined" "result \<noteq> JNull" by auto
  from get_defined [OF this] obtain cost where cost: "get result ''ConversionCost'' = Inr cost"
    by blast
  from page_images_defined [OF assms(3,4)] obtain ps where ps: "page_images ts 0 fs = Inr ps"
    by blast
  show ?thesis
    using assms(1) keys cost ps by (simp add: convert_result_def fs)
qed

lemma failed_caught [simp]: "conversion_failed (caught fb hs ex)"
  by (simp add: conversion_failed_def)

lemma failed_precondition [simp]:
  "st = 400 \<or> st = 500 \<Longrightarrow> conversion_failed (NextResponse_json [(''error'', JStr m)] st hs)"
  by (simp add: conversion_failed_def)

lemma not_failed_converted [simp]:
  "convert_result ts result = Inr obj \<Longrightarrow> \<not> conversion_failed (NextResponse_json obj 200 hs)"
  by (simp add: conversion_failed_def)

lemma fallback_secret_nonempty [simp]: "convertapi_secret e \<noteq> []"
  by (cases "CONVERTAPI_SECRET e") (simp_all add: convertapi_secret_def fallback_secret_def)

lemma page_images_entries:
  "page_images ts i fs = Inr ps \<Longrightarrow> JNull \<notin> set fs \<and> JUndefined \<notin> set fs"
proof (induction fs arbitrary: i ps)
  case Nil
  show ?case by simp
next
  case (Cons f fs)
  from Cons.prems obtain p ps' where
    p: "page_image ts i f = Inr p" and ps': "page_images ts (i + 1) fs = Inr ps'"
    by (auto split: sum.splits)
  from p have "f \<noteq> JNull" "f \<noteq> JUndefined"
    by (auto simp: page_image_def)
  with Cons.IH [OF ps'] show ?case by auto
qed

lemma convert_result_pages:
  assumes "convert_result ts result = Inr obj" "get result ''Files'' = Inr (JArr fs)"
  shows "fs \<noteq> [] \<and> JNull \<notin> set fs \<and> JUndefined \<notin> set fs"
proof -
  from assms have keys: "\<exists>u. Object_keys (case fs of [] \<Rightarrow> JUndefined | x # xa \<Rightarrow> x) = Inr u"
    by (auto simp: convert_result_def split: sum.splits if_splits)
  then have "fs \<noteq> []" by (cases fs) auto
  moreover from convert_result_obj [OF assms(1)] assms(2) obtain ps where
    "page_images ts 0 fs = Inr ps" by auto
  ultimately show ?thesis using page_images_entries by blast
qed

lemma process_pdf_failed:
  "conversion_failed (fst (process_pdf_POST e ts convertapi (Inr formData)))
     = (route_failure (upstream_answer e convertapi formData)
        \<or> \<not> listed_pages (upstream_answer e convertapi formData))"
proof (cases "form_get formData ''pdf''")
  case None
  then show ?thesis by (simp add: process_pdf_POST_def upstream_answer_def)
next
  case (Some entry)
  show ?thesis
  proof (cases "missing (Some entry)")
    case True
    with Some show ?thesis by (simp add: process_pdf_POST_def upstream_answer_def)
  next
    case False
    let ?call = "ConvertAPI (convertapi_secret e) entry"
    from Some False have ans: "upstream_answer e convertapi formData = Some (convertapi ?call)"
      by (simp add: upstream_answer_def)
    show ?thesis
    proof (cases "convertapi ?call")
      case (Rejected ex)
      with Some False ans show ?thesis by (simp add: process_pdf_POST_def)
    next
      case (Resolved r)
      show ?thesis
      proof (cases "ok r")
        case nok: False
        with Some False ans Resolved show ?thesis by (simp add: process_pdf_POST_def)
      next
        case ok: True
        show ?thesis
        proof (cases "up_json r")
          case (Inl ex)
          with Some False ans Resolved ok show ?thesis by (simp add: process_pdf_POST_def)
        next
          case (Inr result)
          show ?thesis
          proof (cases "lacks_page_list (Inr result)")
            case True
            from convert_result_fails [OF True] obtain ex where "convert_result ts result = Inl ex"
              by blast
            with Some False ans Resolved ok Inr True show ?thesis
              by (simp add: process_pdf_POST_def)
          next
            case nl: False
            then obtain fs where fs: "get result ''Files'' = Inr (JArr fs)"
              by (auto split: sum.splits json.splits)
            show ?thesis
            proof (cases "fs \<noteq> [] \<and> JNull \<notin> set fs \<and> JUndefined \<notin> set fs")
              case True
              then have "fs \<noteq> []" "JNull \<notin> set fs" "JUndefined \<notin> set fs" by simp_all
              from convert_result_succeeds [OF fs this] obtain obj where
                "convert_result ts result = Inr obj" by blast
              with Some False ans Resolved ok Inr nl fs True show ?thesis
                by (simp add: process_pdf_POST_def)
            next
              case bad: False
              have "\<exists>ex. convert_result ts result = Inl ex"
              proof (cases "convert_result ts result")
                case (Inl ex)
                then show ?thesis by blast
              next
                case (Inr obj)
                from convert_result_pages [OF Inr fs] bad show ?thesis by blast
              qed
              then obtain ex where "convert_result ts result = Inl ex" by blast
              with Some False ans Resolved ok Inr nl fs bad show ?thesis
                by (simp add: process_pdf_POST_def)
            qed
          qed
        qed
      qed
    qed
  qed
qed

text \<open>
  Claim C5, amended. A file that is missing or not of PDF type is rejected by
  \<open>processPdf\<close> with an alert, before any request. The conversion route fails
  whenever the form has no file, the call to the conversion service throws, the service
  answers with a status that is not a success, or its answer is not JSON or has no
  array under \<open>Files\<close>; it also fails when the form cannot be read. When none of
  these holds and the \<open>Files\<close> array is not empty and has no null entry, the
  route succeeds. Beyond the amended claim, the fourth conjunct says what remains: the
  route fails exactly in the cases above and for a \<open>Files\<close> array that is empty
  or has a null entry.
\<close>

theorem conversion_failures:
  "(\<not> is_pdf_file selectedFile \<longrightarrow>
      processPdf br selectedFile n w = ([Alert ''Please select a valid PDF file''], w))
   \<and> (route_failure (upstream_answer e convertapi formData) \<longrightarrow>
        conversion_failed (fst (process_pdf_POST e ts convertapi (Inr formData))))
   \<and> (\<not> route_failure (upstream_answer e convertapi formData)
        \<and> listed_pages (upstream_answer e convertapi formData) \<longrightarrow>
        \<not> conversion_failed (fst (process_pdf_POST e ts convertapi (Inr formData))))
   \<and> conversion_failed (fst (process_pdf_POST e ts convertapi (Inr formData)))
       = (route_failure (upstream_answer e convertapi formData)
          \<or> \<not> listed_pages (upstream_answer e convertapi formData))
   \<and> conversion_failed (fst (process_pdf_POST e ts convertapi (Inl ex)))"
proof -
  have "processPdf br selectedFile n w = ([Alert ''Please select a valid PDF file''], w)"
    if "\<not> is_pdf_file selectedFile"
    using that by (cases selectedFile) (simp_all add: processPdf_def)
  moreover have "conversion_failed (fst (process_pdf_POST e ts convertapi (Inl ex)))"
    by (simp add: process_pdf_POST_def)
  ultimately show ?thesis using process_pdf_failed [of e ts convertapi formData] by blast
qed

lemma example_answer:
  "upstream_answer example_env example_convertapi example_form
     = Some (example_convertapi (ConvertAPI ''secret'' (FormFile example_pdf)))"
  by (simp add: upstream_answer_def example_form_def form_get_def convertapi_secret_def example_env_def)

lemma example_empty_answer:
  "upstream_answer example_env example_empty example_form
     = Some (example_empty (ConvertAPI ''secret'' (FormFile example_pdf)))"
  by (simp add: upstream_answer_def example_form_def form_get_def convertapi_secret_def example_env_def)

theorem conversion_failures_witness:
  "\<not> is_pdf_file None
   \<and> processPdf example_browser None Pdf1 0 = ([Alert ''Please select a valid PDF file''], 0)
   \<and> \<not> route_failure (upstream_answer example_env example_convertapi example_form)
   \<and> listed_pages (upstream_answer example_env example_convertapi example_form)
   \<and> \<not> conversion_failed (fst (process_pdf_POST example_env example_to_string example_convertapi
          (Inr example_form)))
   \<and> route_failure (upstream_answer example_env example_offline example_form)
   \<and> conversion_failed (fst (process_pdf_POST example_env example_to_string example_offline
          (Inr example_form)))
   \<and> route_failure (upstream_answer example_env example_empty example_form)
   \<and> \<not> listed_pages (upstream_answer example_env example_empty example_form)
   \<and> conversion_failed (fst (process_pdf_POST example_env example_to_string example_empty
          (Inr example_form)))"
proof -
  have pages: "listed_pages (upstream_answer example_env example_convertapi example_form)"
    unfolding example_answer by (simp add: example_convertapi_def lookup_def example_file_info_def)
  have nofail: "\<not> route_failure (upstream_answer example_env example_convertapi example_form)"
    unfolding example_answer by (simp add: example_convertapi_def lookup_def ok_def)
  have nopdf: "\<not> is_pdf_file None" by simp
  have off: "route_failure (upstream_answer example_env example_offline example_form)"
    by (simp add: upstream_answer_def example_form_def form_get_def example_offline_def)
  have empty: "route_failure (upstream_answer example_env example_empty example_form)"
    "\<not> listed_pages (upstream_answer example_env example_empty example_form)"
    unfolding example_empty_answer by (simp_all add: example_empty_def lookup_def ok_def)
  note a = conversion_failures [where selectedFile = None and br = example_browser
      and n = Pdf1 and w = 0 and ts = example_to_string and e = example_env
      and convertapi = example_convertapi and formData = example_form]
  note b = conversion_failures [where ts = example_to_string and e = example_env
      and convertapi = example_offline and formData = example_form]
  note c = conversion_failures [where ts = example_to_string and e = example_env
      and convertapi = example_empty and formData = example_form]
  from a [THEN conjunct1] nopdf have 1: "processPdf example_browser None Pdf1 0 = ([Alert ''Please select a valid PDF file''], 0)"
    by blast
  from a [THEN conjunct2, THEN conjunct2, THEN conjunct1] nofail pages have 2: "\<not> conversion_failed (fst (process_pdf_POST example_env example_to_string
      example_convertapi (Inr example_form)))"
    by blast
  from b [THEN conjunct2, THEN conjunct1] off have 3: "conversion_failed (fst (process_pdf_POST example_env example_to_string
      example_offline (Inr example_form)))"
    by blast
  from c [THEN conjunct2, THEN conjunct1] empty have 4: "conversion_failed (fst (process_pdf_POST example_env example_to_string
      example_empty (Inr example_form)))"
    by blast
  from nopdf 1 nofail pages 2 off 3 empty 4 show ?thesis by blast
qed

text \<open>
  Claim C5 as stated fails: with a PDF file supplied and a conversion service that
  cannot be reached, the route fails, although no file is missing, the file is a PDF,
  and the service has returned neither a status nor a response that could lack the
  page list.
\<close>

theorem conversion_fails_when_fetch_rejects:
  "conversion_failed (fst (process_pdf_POST example_env example_to_string example_offline
      (Inr example_form)))
   \<and> form_get example_form ''pdf'' = Some (FormFile example_pdf)
   \<and> is_pdf_file (Some example_pdf)
   \<and> \<not> listed_failure (upstream_answer example_env example_offline example_form)"
  by (simp add: process_pdf_POST_def upstream_answer_def example_form_def form_get_def
        example_offline_def example_pdf_def)

text \<open>
  Claim C6 at the conversion route: with no \<open>CONVERTAPI_SECRET\<close> in the
  environment, a request with a PDF file is sent on to the conversion service under the
  secret written in the source, and the route answers 200. The check that would answer
  500 can never fire (\<open>fallback_secret_nonempty\<close>).
\<close>

theorem conversion_without_secret_calls_upstream:
  "configured (CONVERTAPI_SECRET example_env_unset) = None
   \<and> snd (process_pdf_POST example_env_unset example_to_string example_convertapi (Inr example_form))
       = [ConvertAPI fallback_secret (FormFile example_pdf)]
   \<and> status (fst (process_pdf_POST example_env_unset example_to_string example_convertapi
        (Inr example_form))) = 200"
  by (simp add: process_pdf_POST_def form_get_def convertapi_secret_def fallback_secret_def
        example_env_unset_def example_form_def example_convertapi_def ok_def convert_result_def
        page_image_def example_file_info_def lookup_def NextResponse_json_def)

text \<open>
  The routes that call the model service do what claim C6 says: without a configured
  API key each answers 500 and calls nothing.
\<close>

lemma missing_key_no_call:
  assumes "configured (OPENAI_API_KEY e) = None"
  shows "extract_image_POST e llm now ireq =
           (NextResponse_json [(''error'', JStr ''OpenAI API key is not configured'')] 500 [], [])"
    and "extract_text_POST e llm now treq =
           (NextResponse_json [(''error'', JStr ''OpenAI API key is not configured'')] 500 corsHeaders, [])"
    and "compare_orders_POST e cllm now creq =
           (NextResponse_json [(''error'', JStr ''OpenAI API key is not configured'')] 500 [], [])"
  using assms
  by (simp_all add: extract_image_POST_def extract_text_POST_def compare_orders_POST_def)

lemma precondition_response [simp]:
  "NextResponse_json [(''error'', JStr m)] st hs = \<lparr>status = st, headers = hs, body = error_body m\<rparr>"
  by (simp add: NextResponse_json_def error_body_def)

lemma caught_response [simp]:
  "caught fb hs ex = \<lparr>status = 500, headers = hs, body = failure_body (error_message fb ex)\<rparr>"
  by (simp add: caught_def NextResponse_json_def failure_body_def)

lemma extracted_response [simp]:
  "NextResponse_json [(''success'', JBool True), (''data'', JObj r), (''extractedAt'', JStr now)] 200 hs
     = \<lparr>status = 200, headers = hs,
        body = JObj [(''success'', JBool True), (''data'', wire (JObj r)), (''extractedAt'', JStr now)]\<rparr>"
  by (simp add: NextResponse_json_def)

lemma process_pdf_not_precondition:
  assumes "creq = Inr cform" "\<not> missing (form_get cform ''pdf'')"
  shows "response_shape ''pages'' (fst (process_pdf_POST e ts convertapi creq)) \<noteq> PreconditionShape"
proof -
  from assms(2) obtain entry where en: "form_get cform ''pdf'' = Some entry"
    by (cases "form_get cform ''pdf''") auto
  have ex: "response_shape ''pages'' (caught fb hs x) \<noteq> PreconditionShape" for fb hs x
    using shape_caught [of "''pages''" fb hs x] by simp
  have okr: "response_shape ''pages'' (NextResponse_json obj 200 []) \<noteq> PreconditionShape"
    if "convert_result ts result = Inr obj" for obj result
    using shape_converted [OF that, of "[]"] by simp
  show ?thesis
    using assms en ex okr
    by (simp del: caught_response add: process_pdf_POST_def Let_def
          split: sum.splits fetch_result.splits)
qed

text \<open>
  Claim C9. Every response of the conversion route and of the two extraction routes has
  one of three shapes: success true with the payload (\<open>pages\<close>, resp.
  \<open>data\<close>) and status 200; exactly \<open>{success: false, error}\<close> with status 500;
  or exactly \<open>{error}\<close>, with no \<open>success\<close> property, and status 400 or 500.
  Which shape it is follows the path taken. A failed precondition (no configured API
  key, no file in the form, no non-empty string as text) gives the bare \<open>{error}\<close>
  with its status. Anything thrown (by reading the request, by the model service, by
  the conversion service or on its answer) gives the \<open>catch\<close> block's
  \<open>{success: false, error}\<close> with the thrown message and status 500. An answer of
  the model service gives status 200 with success true and the answer as \<open>data\<close>,
  and an answer of the conversion service with a page list gives status 200 with the
  success shape. Reading \<open>success\<close> from a response of the third shape gives
  undefined, so the entry the page component makes of it is not a successful one.
\<close>

theorem response_shapes:
  "(configured (OPENAI_API_KEY e) = None \<longrightarrow>
       extract_image_POST e llm now ireq
         = (\<lparr>status = 500, headers = [], body = error_body ''OpenAI API key is not configured''\<rparr>, [])
     \<and> extract_text_POST e llm now treq
         = (\<lparr>status = 500, headers = corsHeaders,
             body = error_body ''OpenAI API key is not configured''\<rparr>, []))
   \<and> (response_shape payload r = PreconditionShape \<longrightarrow>
         get (body r) ''success'' = Inr JUndefined \<and> \<not> successful (result_entry (body r) n))
   \<and> response_shape ''pages'' (fst (process_pdf_POST e ts convertapi creq)) \<noteq> OtherShape
   \<and> response_shape ''data'' (fst (extract_image_POST e llm now ireq)) \<noteq> OtherShape
   \<and> response_shape ''data'' (fst (extract_text_POST e llm now treq)) \<noteq> OtherShape
   \<and> (configured (OPENAI_API_KEY e) = None \<longrightarrow>
         response_shape ''data'' (fst (extract_image_POST e llm now ireq)) = PreconditionShape
       \<and> response_shape ''data'' (fst (extract_text_POST e llm now treq)) = PreconditionShape)
   \<and> (creq = Inr cform \<and> missing (form_get cform ''pdf'') \<longrightarrow>
         response_shape ''pages'' (fst (process_pdf_POST e ts convertapi creq)) = PreconditionShape)
   \<and> (ireq = Inr iform \<and> missing (form_get iform ''image'') \<longrightarrow>
         response_shape ''data'' (fst (extract_image_POST e llm now ireq)) = PreconditionShape)
   \<and> (treq = Inr tbody \<and> get tbody ''text'' = Inr v \<and> \<not> (is_string v \<and> truthy v) \<longrightarrow>
         response_shape ''data'' (fst (extract_text_POST e llm now treq)) = PreconditionShape)
   \<and> (configured (OPENAI_API_KEY e) = Some k \<and> ireq = Inl ex \<longrightarrow>
         fst (extract_image_POST e llm now ireq)
           = \<lparr>status = 500, headers = [],
               body = failure_body (error_message ''An unknown error occurred'' ex)\<rparr>)
   \<and> (configured (OPENAI_API_KEY e) = Some k \<and> ireq = Inr iform
        \<and> missing (form_get iform ''image'') \<longrightarrow>
         fst (extract_image_POST e llm now ireq)
           = \<lparr>status = 400, headers = [], body = error_body ''No image file provided''\<rparr>)
   \<and> (configured (OPENAI_API_KEY e) = Some k \<and> ireq = Inr iform
        \<and> form_get iform ''image'' = Some (FormString str) \<and> str \<noteq> [] \<longrightarrow>
         response_shape ''data'' (fst (extract_image_POST e llm now ireq)) = ExceptionShape)
   \<and> (configured (OPENAI_API_KEY e) = Some k \<and> ireq = Inr iform
        \<and> form_get iform ''image'' = Some (FormFile f)
        \<and> llm (image_request k (file_bytes f)) = Inl ex \<longrightarrow>
         fst (extract_image_POST e llm now ireq)
           = \<lparr>status = 500, headers = [],
               body = failure_body (error_message ''An unknown error occurred'' ex)\<rparr>)
   \<and> (configured (OPENAI_API_KEY e) = Some k \<and> ireq = Inr iform
        \<and> form_get iform ''image'' = Some (FormFile f)
        \<and> llm (image_request k (file_bytes f)) = Inr answer \<longrightarrow>
         fst (extract_image_POST e llm now ireq)
           = \<lparr>status = 200, headers = [],
               body = JObj [(''success'', JBool True), (''data'', wire (JObj answer)),
                            (''extractedAt'', JStr now)]\<rparr>
       \<and> response_shape ''data'' (fst (extract_image_POST e llm now ireq)) = OkShape)
   \<and> (configured (OPENAI_API_KEY e) = Some k \<and> treq = Inl ex \<longrightarrow>
         fst (extract_text_POST e llm now treq)
           = \<lparr>status = 500, headers = corsHeaders,
               body = failure_body (error_message ''An unknown error occurred'' ex)\<rparr>)
   \<and> (configured (OPENAI_API_KEY e) = Some k \<and> treq = Inr tbody \<and> get tbody ''text'' = Inl ex \<longrightarrow>
         fst (extract_text_POST e llm now treq)
           = \<lparr>status = 500, headers = corsHeaders,
               body = failure_body (error_message ''An unknown error occurred'' ex)\<rparr>)
   \<and> (configured (OPENAI_API_KEY e) = Some k \<and> treq = Inr tbody \<and> get tbody ''text'' = Inr v
        \<and> \<not> (is_string v \<and> truthy v) \<longrightarrow>
         fst (extract_text_POST e llm now treq)
           = \<lparr>status = 400, headers = corsHeaders, body = error_body ''No text input provided''\<rparr>)
   \<and> (configured (OPENAI_API_KEY e) = Some k \<and> treq = Inr tbody
        \<and> get tbody ''text'' = Inr (JStr str) \<and> str \<noteq> []
        \<and> llm (text_request k str) = Inl ex \<longrightarrow>
         fst (extract_text_POST e llm now treq)
           = \<lparr>status = 500, headers = corsHeaders,
               body = failure_body (error_message ''An unknown error occurred'' ex)\<rparr>)
   \<and> (configured (OPENAI_API_KEY e) = Some k \<and> treq = Inr tbody
        \<and> get tbody ''text'' = Inr (JStr str) \<and> str \<noteq> []
        \<and> llm (text_request k str) = Inr answer \<longrightarrow>
         fst (extract_text_POST e llm now treq)
           = \<lparr>status = 200, headers = corsHeaders,
               body = JObj [(''success'', JBool True), (''data'', wire (JObj answer)),
                            (''extractedAt'', JStr now)]\<rparr>
       \<and> response_shape ''data'' (fst (extract_text_POST e llm now treq)) = OkShape)
   \<and> (creq = Inl ex \<longrightarrow>
         fst (process_pdf_POST e ts convertapi creq)
           = \<lparr>status = 500, headers = [],
               body = failure_body (error_message ''Failed to process PDF'' ex)\<rparr>)
   \<and> (creq = Inr cform \<and> missing (form_get cform ''pdf'') \<longrightarrow>
         fst (process_pdf_POST e ts convertapi creq)
           = \<lparr>status = 400, headers = [], body = error_body ''No PDF file provided''\<rparr>)
   \<and> (creq = Inr cform \<and> upstream_answer e convertapi cform = Some (Rejected ex) \<longrightarrow>
         fst (process_pdf_POST e ts convertapi creq)
           = \<lparr>status = 500, headers = [],
               body = failure_body (error_message ''Failed to process PDF'' ex)\<rparr>)
   \<and> (creq = Inr cform \<and> \<not> missing (form_get cform ''pdf'')
        \<and> (route_failure (upstream_answer e convertapi cform)
           \<or> \<not> listed_pages (upstream_answer e convertapi cform)) \<longrightarrow>
         response_shape ''pages'' (fst (process_pdf_POST e ts convertapi creq)) = ExceptionShape)
   \<and> (creq = Inr cform \<and> \<not> route_failure (upstream_answer e convertapi cform)
        \<and> listed_pages (upstream_answer e convertapi cform) \<longrightarrow>
         response_shape ''pages'' (fst (process_pdf_POST e ts convertapi creq)) = OkShape
       \<and> status (fst (process_pdf_POST e ts convertapi creq)) = 200)"
proof -
  have c1: "configured (OPENAI_API_KEY e) = None \<longrightarrow>
       extract_image_POST e llm now ireq
         = (\<lparr>status = 500, headers = [], body = error_body ''OpenAI API key is not configured''\<rparr>, [])
     \<and> extract_text_POST e llm now treq
         = (\<lparr>status = 500, headers = corsHeaders,
             body = error_body ''OpenAI API key is not configured''\<rparr>, [])"
    by (simp add: extract_image_POST_def extract_text_POST_def)
  have c2: "response_shape payload r = PreconditionShape \<longrightarrow>
         get (body r) ''success'' = Inr JUndefined \<and> \<not> successful (result_entry (body r) n)"
    using precondition_shape_falsy [of payload r n] by blast
  note c3 = process_pdf_shape [of e ts convertapi creq]
  note c4 = extract_image_shape [of e llm now ireq]
  note c5 = extract_text_shape [of e llm now treq]
  have c6: "configured (OPENAI_API_KEY e) = None \<longrightarrow>
         response_shape ''data'' (fst (extract_image_POST e llm now ireq)) = PreconditionShape
       \<and> response_shape ''data'' (fst (extract_text_POST e llm now treq)) = PreconditionShape"
    by (simp del: precondition_response add: extract_image_POST_def extract_text_POST_def)
  have c7: "creq = Inr cform \<and> missing (form_get cform ''pdf'') \<longrightarrow>
         response_shape ''pages'' (fst (process_pdf_POST e ts convertapi creq)) = PreconditionShape"
    by (cases "form_get cform ''pdf''")
       (auto simp del: precondition_response simp: process_pdf_POST_def Let_def)
  have c8: "ireq = Inr iform \<and> missing (form_get iform ''image'') \<longrightarrow>
         response_shape ''data'' (fst (extract_image_POST e llm now ireq)) = PreconditionShape"
    by (auto simp del: precondition_response simp: extract_image_POST_def Let_def split: option.splits)
  have c9: "treq = Inr tbody \<and> get tbody ''text'' = Inr v \<and> \<not> (is_string v \<and> truthy v) \<longrightarrow>
         response_shape ''data'' (fst (extract_text_POST e llm now treq)) = PreconditionShape"
    by (cases v)
       (auto simp del: precondition_response simp: extract_text_POST_def Let_def split: option.splits)
  have i1: "configured (OPENAI_API_KEY e) = Some k \<and> ireq = Inl ex \<longrightarrow>
         fst (extract_image_POST e llm now ireq)
           = \<lparr>status = 500, headers = [],
               body = failure_body (error_message ''An unknown error occurred'' ex)\<rparr>"
    by (simp add: extract_image_POST_def)
  have i2: "configured (OPENAI_API_KEY e) = Some k \<and> ireq = Inr iform
        \<and> missing (form_get iform ''image'') \<longrightarrow>
         fst (extract_image_POST e llm now ireq)
           = \<lparr>status = 400, headers = [], body = error_body ''No image file provided''\<rparr>"
    by (simp add: extract_image_POST_def)
  have i3: "configured (OPENAI_API_KEY e) = Some k \<and> ireq = Inr iform
        \<and> form_get iform ''image'' = Some (FormString str) \<and> str \<noteq> [] \<longrightarrow>
         response_shape ''data'' (fst (extract_image_POST e llm now ireq)) = ExceptionShape"
    by (simp del: caught_response add: extract_image_POST_def)
  have i4: "configured (OPENAI_API_KEY e) = Some k \<and> ireq = Inr iform
        \<and> form_get iform ''image'' = Some (FormFile f)
        \<and> llm (image_request k (file_bytes f)) = Inl ex \<longrightarrow>
         fst (extract_image_POST e llm now ireq)
           = \<lparr>status = 500, headers = [],
               body = failure_body (error_message ''An unknown error occurred'' ex)\<rparr>"
    by (simp add: extract_image_POST_def)
  have i5: "configured (OPENAI_API_KEY e) = Some k \<and> ireq = Inr iform
        \<and> form_get iform ''image'' = Some (FormFile f)
        \<and> llm (image_request k (file_bytes f)) = Inr answer \<longrightarrow>
         fst (extract_image_POST e llm now ireq)
           = \<lparr>status = 200, headers = [],
               body = JObj [(''success'', JBool True), (''data'', wire (JObj answer)),
                            (''extractedAt'', JStr now)]\<rparr>
       \<and> response_shape ''data'' (fst (extract_image_POST e llm now ireq)) = OkShape"
    using shape_extracted [of answer now "[]"]
    by (simp add: extract_image_POST_def)
  have t1: "configured (OPENAI_API_KEY e) = Some k \<and> treq = Inl ex \<longrightarrow>
         fst (extract_text_POST e llm now treq)
           = \<lparr>status = 500, headers = corsHeaders,
               body = failure_body (error_message ''An unknown error occurred'' ex)\<rparr>"
    by (simp add: extract_text_POST_def)
  have t2: "configured (OPENAI_API_KEY e) = Some k \<and> treq = Inr tbody \<and> get tbody ''text'' = Inl ex \<longrightarrow>
         fst (extract_text_POST e llm now treq)
           = \<lparr>status = 500, headers = corsHeaders,
               body = failure_body (error_message ''An unknown error occurred'' ex)\<rparr>"
    by (simp add: extract_text_POST_def)
  have t3: "configured (OPENAI_API_KEY e) = Some k \<and> treq = Inr tbody \<and> get tbody ''text'' = Inr v
        \<and> \<not> (is_string v \<and> truthy v) \<longrightarrow>
         fst (extract_text_POST e llm now treq)
           = \<lparr>status = 400, headers = corsHeaders, body = error_body ''No text input provided''\<rparr>"
    by (cases v) (simp_all add: extract_text_POST_def)
  have t4: "configured (OPENAI_API_KEY e) = Some k \<and> treq = Inr tbody
        \<and> get tbody ''text'' = Inr (JStr str) \<and> str \<noteq> []
        \<and> llm (text_request k str) = Inl ex \<longrightarrow>
         fst (extract_text_POST e llm now treq)
           = \<lparr>status = 500, headers = corsHeaders,
               body = failure_body (error_message ''An unknown error occurred'' ex)\<rparr>"
    by (simp add: extract_text_POST_def)
  have t5: "configured (OPENAI_API_KEY e) = Some k \<and> treq = Inr tbody
        \<and> get tbody ''text'' = Inr (JStr str) \<and> str \<noteq> []
        \<and> llm (text_request k str) = Inr answer \<longrightarrow>
         fst (extract_text_POST e llm now treq)
           = \<lparr>status = 200, headers = corsHeaders,
               body = JObj [(''success'', JBool True), (''data'', wire (JObj answer)),
                            (''extractedAt'', JStr now)]\<rparr>
       \<and> response_shape ''data'' (fst (extract_text_POST e llm now treq)) = OkShape"
    using shape_extracted [of answer now corsHeaders]
    by (simp add: extract_text_POST_def)
  have p1: "creq = Inl ex \<longrightarrow>
         fst (process_pdf_POST e ts convertapi creq)
           = \<lparr>status = 500, headers = [],
               body = failure_body (error_message ''Failed to process PDF'' ex)\<rparr>"
    by (simp add: process_pdf_POST_def)
  have p2: "creq = Inr cform \<and> missing (form_get cform ''pdf'') \<longrightarrow>
         fst (process_pdf_POST e ts convertapi creq)
           = \<lparr>status = 400, headers = [], body = error_body ''No PDF file provided''\<rparr>"
    by (cases "form_get cform ''pdf''") (auto simp: process_pdf_POST_def Let_def)
  have p3: "creq = Inr cform \<and> upstream_answer e convertapi cform = Some (Rejected ex) \<longrightarrow>
         fst (process_pdf_POST e ts convertapi creq)
           = \<lparr>status = 500, headers = [],
               body = failure_body (error_message ''Failed to process PDF'' ex)\<rparr>"
    by (cases "form_get cform ''pdf''")
       (auto simp: process_pdf_POST_def Let_def upstream_answer_def split: if_splits)
  have p4: "creq = Inr cform \<and> \<not> missing (form_get cform ''pdf'')
        \<and> (route_failure (upstream_answer e convertapi cform)
           \<or> \<not> listed_pages (upstream_answer e convertapi cform)) \<longrightarrow>
         response_shape ''pages'' (fst (process_pdf_POST e ts convertapi creq)) = ExceptionShape"
  proof (intro impI, elim conjE)
    assume h: "creq = Inr cform" "\<not> missing (form_get cform ''pdf'')"
      "route_failure (upstream_answer e convertapi cform)
           \<or> \<not> listed_pages (upstream_answer e convertapi cform)"
    from process_pdf_failed [of e ts convertapi cform] h(1,3)
    have "response_shape ''pages'' (fst (process_pdf_POST e ts convertapi creq)) \<noteq> OkShape"
      by (simp add: conversion_failed_def)
    with c3 process_pdf_not_precondition [OF h(1,2), of e ts convertapi]
    show "response_shape ''pages'' (fst (process_pdf_POST e ts convertapi creq)) = ExceptionShape"
      by (cases "response_shape ''pages'' (fst (process_pdf_POST e ts convertapi creq))") simp_all
  qed
  have p5: "creq = Inr cform \<and> \<not> route_failure (upstream_answer e convertapi cform)
        \<and> listed_pages (upstream_answer e convertapi cform) \<longrightarrow>
         response_shape ''pages'' (fst (process_pdf_POST e ts convertapi creq)) = OkShape
       \<and> status (fst (process_pdf_POST e ts convertapi creq)) = 200"
  proof (intro impI, elim conjE)
    assume h: "creq = Inr cform" "\<not> route_failure (upstream_answer e convertapi cform)"
      "listed_pages (upstream_answer e convertapi cform)"
    from process_pdf_failed [of e ts convertapi cform] h
    have s: "response_shape ''pages'' (fst (process_pdf_POST e ts convertapi creq)) = OkShape"
      by (simp add: conversion_failed_def)
    then have "status (fst (process_pdf_POST e ts convertapi creq)) = 200"
      by (auto simp: response_shape_def split: json.splits if_splits)
    with s show "response_shape ''pages'' (fst (process_pdf_POST e ts convertapi creq)) = OkShape
       \<and> status (fst (process_pdf_POST e ts convertapi creq)) = 200"
      by simp
  qed
  show ?thesis
    by (intro conjI c1 c2 c3 c4 c5 c6 c7 c8 c9 i1 i2 i3 i4 i5 t1 t2 t3 t4 t5 p1 p2 p3 p4 p5)
qed

theorem response_shapes_witness:
  "configured (OPENAI_API_KEY example_env_unset) = None
   \<and> fst (extract_image_POST example_env_unset (\<lambda>c. Inr []) ''2025-06-01T10:00:00.000Z''
            (Inr [(''image'', FormFile example_pdf)]))
       = \<lparr>status = 500, headers = [], body = JObj [(''error'', JStr ''OpenAI API key is not configured'')]\<rparr>
   \<and> response_shape ''data''
         (fst (extract_image_POST example_env_unset (\<lambda>c. Inr []) ''2025-06-01T10:00:00.000Z''
            (Inr [(''image'', FormFile example_pdf)]))) = PreconditionShape
   \<and> \<not> successful (result_entry
         (body (fst (extract_image_POST example_env_unset (\<lambda>c. Inr []) ''2025-06-01T10:00:00.000Z''
            (Inr [(''image'', FormFile example_pdf)])))) (JNum 1))
   \<and> fst (extract_image_POST example_env (\<lambda>c. Inr [(''OrderNumber'', JStr ''SO-1001'')])
            ''2025-06-01T10:00:00.000Z'' (Inr [(''image'', FormFile example_pdf)]))
       = \<lparr>status = 200, headers = [],
           body = JObj [(''success'', JBool True),
                        (''data'', JObj [(''OrderNumber'', JStr ''SO-1001'')]),
                        (''extractedAt'', JStr ''2025-06-01T10:00:00.000Z'')]\<rparr>
   \<and> fst (extract_image_POST example_env (\<lambda>c. Inl (ErrorObj ''429 rate limit''))
            ''2025-06-01T10:00:00.000Z'' (Inr [(''image'', FormFile example_pdf)]))
       = \<lparr>status = 500, headers = [],
           body = JObj [(''success'', JBool False), (''error'', JStr ''429 rate limit'')]\<rparr>"
proof -
  let ?now = "''2025-06-01T10:00:00.000Z''"
  let ?req = "Inr [(''image'', FormFile example_pdf)] :: thrown + (string \<times> form_value) list"
  let ?r = "fst (extract_image_POST example_env_unset (\<lambda>c. Inr []) ?now ?req)"
  have unset: "configured (OPENAI_API_KEY example_env_unset) = None"
    by (simp add: example_env_unset_def)
  have key: "configured (OPENAI_API_KEY example_env) = Some ''sk-test''"
    by (simp add: example_env_def)
  have entry: "form_get [(''image'', FormFile example_pdf)] ''image'' = Some (FormFile example_pdf)"
    by (simp add: form_get_def)
  note a = response_shapes [where e = example_env_unset and llm = "\<lambda>c. Inr []"
      and now = ?now and ireq = ?req]
  from a [THEN conjunct1] unset
  have "extract_image_POST example_env_unset (\<lambda>c. Inr []) ?now ?req
         = (\<lparr>status = 500, headers = [], body = error_body ''OpenAI API key is not configured''\<rparr>, [])"
    by blast
  then have resp: "?r = \<lparr>status = 500, headers = [],
      body = JObj [(''error'', JStr ''OpenAI API key is not configured'')]\<rparr>"
    by (simp add: error_body_def)
  have shape: "response_shape ''data'' ?r = PreconditionShape"
    unfolding resp by (simp add: response_shape_def lookup_def)
  from response_shapes [where payload = "''data''" and r = ?r and n = "JNum 1",
      THEN conjunct2, THEN conjunct1] shape
  have entry1: "\<not> successful (result_entry (body ?r) (JNum 1))"
    by blast
  note b = response_shapes [where e = example_env and k = "''sk-test''" and now = ?now
      and ireq = ?req and iform = "[(''image'', FormFile example_pdf)]" and f = example_pdf]
  note ok_path = b [where llm = "\<lambda>c. Inr [(''OrderNumber'', JStr ''SO-1001'')]"
      and answer = "[(''OrderNumber'', JStr ''SO-1001'')]",
      THEN conjunct2, THEN conjunct2, THEN conjunct2, THEN conjunct2, THEN conjunct2,
      THEN conjunct2, THEN conjunct2, THEN conjunct2, THEN conjunct2, THEN conjunct2,
      THEN conjunct2, THEN conjunct2, THEN conjunct2, THEN conjunct1]
  note thrown_path = b [where llm = "\<lambda>c. Inl (ErrorObj ''429 rate limit'')"
      and ex = "ErrorObj ''429 rate limit''",
      THEN conjunct2, THEN conjunct2, THEN conjunct2, THEN conjunct2, THEN conjunct2,
      THEN conjunct2, THEN conjunct2, THEN conjunct2, THEN conjunct2, THEN conjunct2,
      THEN conjunct2, THEN conjunct2, THEN conjunct1]
  from ok_path key entry
  have okr: "fst (extract_image_POST example_env (\<lambda>c. Inr [(''OrderNumber'', JStr ''SO-1001'')])
            ?now ?req)
       = \<lparr>status = 200, headers = [],
           body = JObj [(''success'', JBool True),
                        (''data'', JObj [(''OrderNumber'', JStr ''SO-1001'')]),
                        (''extractedAt'', JStr ?now)]\<rparr>"
    by simp
  from thrown_path key entry
  have thr: "fst (extract_image_POST example_env (\<lambda>c. Inl (ErrorObj ''429 rate limit'')) ?now ?req)
       = \<lparr>status = 500, headers = [],
           body = JObj [(''success'', JBool False), (''error'', JStr ''429 rate limit'')]\<rparr>"
    by (simp add: failure_body_def)
  from unset resp shape entry1 okr thr show ?thesis by blast
qed

end
